theory Spec2Isabelle
  imports Complex_Main "HOL-Library.Word" "HOL-Library.Log_Nat"
begin

section \<open>JavaScript values as the geocoder sees them\<close>

text \<open>
  A JavaScript number is a binary64 value. \<open>Fin r\<close> is the finite number of value \<open>r\<close>,
  with \<open>Fin 0\<close> for positive zero; \<open>NegZero\<close> is negative zero.
\<close>

datatype jsnum = Fin real | NegZero | NaN | PosInf | NegInf

text \<open>
  A JavaScript string is a sequence of 16-bit code units. \<open>str\<close> turns a literal of this
  theory, byte by byte, into the string with those code units.
\<close>

type_synonym jsstring = "16 word list"

definition str :: "string \<Rightarrow> jsstring" where
  "str s = map (\<lambda>c. of_nat (of_char c)) s"

text \<open>
  The values a parsed JSON body can hold, with \<open>undefined\<close> added for the result of reading
  a property that does not exist. An object keeps its members in source order; a later
  duplicate key overrides an earlier one, as in \<^verbatim>\<open>JSON.parse\<close>.
\<close>

datatype jsval =
    Undefined
  | JNull
  | JBool bool
  | JNum jsnum
  | JStr jsstring
  | JArr "jsval list"
  | JObj "(jsstring \<times> jsval) list"

text \<open>A coordinate is the two-element array \<^verbatim>\<open>[lat, lon]\<close> of the source.\<close>

type_synonym coord = "jsnum \<times> jsnum"

datatype js_error = TypeError | URIError

text \<open>
  The property keys the geocoders read: \<^verbatim>\<open>.length\<close>, \<^verbatim>\<open>[0]\<close> and a field name, \<^verbatim>\<open>lat\<close> or
  \<^verbatim>\<open>lon\<close>, which no built-in prototype defines.
\<close>

datatype pkey = PLength | PZero | PName jsstring

definition own_member :: "(jsstring \<times> jsval) list \<Rightarrow> jsstring \<Rightarrow> jsval" where
  "own_member kvs k = (case map_of (rev kvs) k of None \<Rightarrow> Undefined | Some v \<Rightarrow> v)"

text \<open>
  Property read \<^verbatim>\<open>v[p]\<close>. Reading from \<open>undefined\<close> or \<open>null\<close> throws a TypeError; a boolean
  or a number has none of the three keys; a string and an array answer \<^verbatim>\<open>length\<close> and the
  index; an object answers with its own member of that name.
\<close>

fun get_prop :: "jsval \<Rightarrow> pkey \<Rightarrow> js_error + jsval" where
  "get_prop Undefined p = Inl TypeError"
| "get_prop JNull p = Inl TypeError"
| "get_prop (JBool b) p = Inr Undefined"
| "get_prop (JNum n) p = Inr Undefined"
| "get_prop (JStr s) PLength = Inr (JNum (Fin (real (length s))))"
| "get_prop (JStr s) PZero = Inr (case s of [] \<Rightarrow> Undefined | c # cs \<Rightarrow> JStr [c])"
| "get_prop (JStr s) (PName k) = Inr Undefined"
| "get_prop (JArr xs) PLength = Inr (JNum (Fin (real (length xs))))"
| "get_prop (JArr xs) PZero = Inr (case xs of [] \<Rightarrow> Undefined | x # ys \<Rightarrow> x)"
| "get_prop (JArr xs) (PName k) = Inr Undefined"
| "get_prop (JObj kvs) PLength = Inr (own_member kvs (str ''length''))"
| "get_prop (JObj kvs) PZero = Inr (own_member kvs (str ''0''))"
| "get_prop (JObj kvs) (PName k) = Inr (own_member kvs k)"

text \<open>
  The member \<open>k\<close> of a value that is neither \<open>undefined\<close> nor \<open>null\<close>, as a total function.
\<close>

definition read_member :: "jsval \<Rightarrow> jsstring \<Rightarrow> jsval" where
  "read_member v k = (case get_prop v (PName k) of Inl e \<Rightarrow> Undefined | Inr w \<Rightarrow> w)"

text \<open>ToBoolean, as \<^verbatim>\<open>!x\<close> and \<^verbatim>\<open>x || y\<close> apply it.\<close>

fun truthy :: "jsval \<Rightarrow> bool" where
  "truthy Undefined = False"
| "truthy JNull = False"
| "truthy (JBool b) = b"
| "truthy (JNum (Fin r)) = (r \<noteq> 0)"
| "truthy (JNum NegZero) = False"
| "truthy (JNum NaN) = False"
| "truthy (JNum PosInf) = True"
| "truthy (JNum NegInf) = True"
| "truthy (JStr s) = (s \<noteq> [])"
| "truthy (JArr xs) = True"
| "truthy (JObj kvs) = True"

subsection \<open>Decimal text to binary64\<close>

text \<open>
  The Number for the non-negative rational \<open>N / D\<close>: the nearest binary64 value, ties to
  the even significand, subnormal below \<open>2 powi (- 1022)\<close>, infinite from
  \<open>2 powi 1024\<close> on. \<open>binary_exponent\<close> is the \<open>e\<close> with \<open>2 powi e \<le> N / D < 2 powi (e + 1)\<close>.
\<close>

definition round_half_even :: "real \<Rightarrow> int" where
  "round_half_even x =
     (let f = \<lfloor>x\<rfloor>; d = x - of_int f
      in if d < 1 / 2 then f else if 1 / 2 < d then f + 1 else if even f then f else f + 1)"

definition binary_exponent :: "int \<Rightarrow> int \<Rightarrow> int" where
  "binary_exponent N D =
     (let t = bitlen N - bitlen D
      in if of_int D * 2 powi t \<le> (of_int N :: real) then t else t - 1)"

definition round64 :: "int \<Rightarrow> int \<Rightarrow> jsnum" where
  "round64 N D =
     (if N = 0 then Fin 0
      else
        let e = max (binary_exponent N D) (- 1022);
            q = 2 powi (e - 52);
            n = round_half_even (of_int N / (of_int D * q));
            r = of_int n * q
        in if 2 powi 1024 \<le> r then PosInf else Fin r)"

text \<open>The Number for the decimal \<open>d\<close> times ten to the \<open>k\<close>, \<open>d\<close> not negative.\<close>

definition toNumber :: "int \<Rightarrow> int \<Rightarrow> jsnum" where
  "toNumber d k = (if 0 \<le> k then round64 (d * 10 ^ nat k) 1 else round64 d (10 ^ nat (- k)))"

subsection \<open>parseFloat\<close>

text \<open>
  \<^verbatim>\<open>parseFloat\<close> converts its argument to a string, drops leading white space and line
  terminators and reads the longest prefix that is a decimal literal: an optional sign,
  then \<^verbatim>\<open>Infinity\<close>, or digits with an optional fraction, or a fraction alone, and an
  exponent when \<^verbatim>\<open>e\<close> is followed by an optional sign and at least one digit. No such
  prefix gives NaN.
\<close>

definition StrWhiteSpaceChar :: "16 word \<Rightarrow> bool" where
  "StrWhiteSpaceChar c \<longleftrightarrow>
     c \<in> set [0x0009, 0x000A, 0x000B, 0x000C, 0x000D, 0x0020, 0x00A0, 0x1680,
               0x2028, 0x2029, 0x202F, 0x205F, 0x3000, 0xFEFF]
     \<or> (0x2000 \<le> c \<and> c \<le> 0x200A)"

definition DecimalDigit :: "16 word \<Rightarrow> bool" where
  "DecimalDigit c \<longleftrightarrow> 0x30 \<le> c \<and> c \<le> 0x39"

definition digits_val :: "jsstring \<Rightarrow> int" where
  "digits_val ds = foldl (\<lambda>a c. 10 * a + (uint c - 48)) 0 ds"

definition SignedInteger :: "jsstring \<Rightarrow> int option" where
  "SignedInteger s =
     (let (neg, u) = (case s of [] \<Rightarrow> (False, [])
                      | c # cs \<Rightarrow> if c = 0x2D then (True, cs)
                                 else if c = 0x2B then (False, cs) else (False, s));
          ds = takeWhile DecimalDigit u
      in if ds = [] then None
         else Some (if neg then - digits_val ds else digits_val ds))"

definition ExponentPart :: "jsstring \<Rightarrow> int" where
  "ExponentPart s =
     (case s of [] \<Rightarrow> 0
      | c # cs \<Rightarrow> if c = 0x65 \<or> c = 0x45
                 then (case SignedInteger cs of None \<Rightarrow> 0 | Some e \<Rightarrow> e) else 0)"

definition StrUnsignedDecimalLiteral :: "jsstring \<Rightarrow> jsnum" where
  "StrUnsignedDecimalLiteral u =
     (if take 8 u = str ''Infinity'' then PosInf
      else
        let ip = takeWhile DecimalDigit u;
            r1 = dropWhile DecimalDigit u;
            (fp, r2) = (case r1 of [] \<Rightarrow> ([], r1)
                        | c # cs \<Rightarrow> if c = 0x2E
                                   then (takeWhile DecimalDigit cs, dropWhile DecimalDigit cs)
                                   else ([], r1))
        in if ip = [] \<and> fp = [] then NaN
           else toNumber (digits_val (ip @ fp)) (ExponentPart r2 - int (length fp)))"

definition negate :: "jsnum \<Rightarrow> jsnum" where
  "negate n =
     (case n of Fin r \<Rightarrow> if r = 0 then NegZero else Fin (- r) | NegZero \<Rightarrow> Fin 0
      | NaN \<Rightarrow> NaN | PosInf \<Rightarrow> NegInf | NegInf \<Rightarrow> PosInf)"

definition parseFloat_string :: "jsstring \<Rightarrow> jsnum" where
  "parseFloat_string s =
     (case dropWhile StrWhiteSpaceChar s of
        [] \<Rightarrow> NaN
      | c # cs \<Rightarrow> if c = 0x2D then negate (StrUnsignedDecimalLiteral cs)
                 else if c = 0x2B then StrUnsignedDecimalLiteral cs
                 else StrUnsignedDecimalLiteral (c # cs))"

text \<open>
  The conversion of the argument to a string throws a TypeError on an object that has a
  member named \<^verbatim>\<open>toString\<close> (a JSON value is never callable, and the inherited
  \<^verbatim>\<open>valueOf\<close> gives the object back), and on an array one of whose elements does, since an
  array prints all its elements.
\<close>

fun ToString_throws :: "jsval \<Rightarrow> bool" and join_throws :: "jsval list \<Rightarrow> bool" where
  "ToString_throws Undefined = False"
| "ToString_throws JNull = False"
| "ToString_throws (JBool b) = False"
| "ToString_throws (JNum n) = False"
| "ToString_throws (JStr s) = False"
| "ToString_throws (JArr xs) = join_throws xs"
| "ToString_throws (JObj kvs) = (str ''toString'' \<in> fst ` set kvs)"
| "join_throws [] = False"
| "join_throws (x # xs) = (ToString_throws x \<or> join_throws xs)"

text \<open>
  Otherwise the string form decides: \<^verbatim>\<open>"undefined"\<close>, \<^verbatim>\<open>"null"\<close>, \<^verbatim>\<open>"true"\<close>, \<^verbatim>\<open>"false"\<close>
  and \<^verbatim>\<open>"[object Object]"\<close> have no numeric prefix; a number prints to a string that reads
  back as itself, negative zero printing as \<^verbatim>\<open>"0"\<close>; an array prints its elements joined
  by commas, so only its first element can contribute a prefix.
\<close>

fun parseFloat_value :: "jsval \<Rightarrow> jsnum" where
  "parseFloat_value Undefined = NaN"
| "parseFloat_value JNull = NaN"
| "parseFloat_value (JBool b) = NaN"
| "parseFloat_value (JNum n) = (if n = NegZero then Fin 0 else n)"
| "parseFloat_value (JStr s) = parseFloat_string s"
| "parseFloat_value (JArr []) = NaN"
| "parseFloat_value (JArr (x # xs)) = parseFloat_value x"
| "parseFloat_value (JObj kvs) = NaN"

definition parseFloat :: "jsval \<Rightarrow> js_error + jsnum" where
  "parseFloat v = (if ToString_throws v then Inl TypeError else Inr (parseFloat_value v))"

subsection \<open>encodeURIComponent\<close>

text \<open>
  Letters, digits and \<^verbatim>\<open>- _ . ! ~ * ' ( )\<close> are kept. Any other code unit is read as a code
  point, a leading surrogate together with the trailing surrogate after it, and each byte
  of the code point's UTF-8 form becomes \<^verbatim>\<open>%XX\<close> in upper-case hexadecimal. A surrogate
  without its partner throws a URIError.
\<close>

definition uriUnreserved :: "16 word \<Rightarrow> bool" where
  "uriUnreserved c \<longleftrightarrow>
     c \<in> set (str ''ABCDEFGHIJKLMNOPQRSTUVWXYZabcdefghijklmnopqrstuvwxyz0123456789-_.!~*()'')
     \<or> c = 0x27"

definition hexDigit :: "nat \<Rightarrow> 16 word" where
  "hexDigit n = str ''0123456789ABCDEF'' ! (n mod 16)"

definition percent :: "nat \<Rightarrow> jsstring" where
  "percent b = [0x25, hexDigit (b div 16), hexDigit b]"

definition utf8 :: "nat \<Rightarrow> nat list" where
  "utf8 cp =
     (if cp < 0x80 then [cp]
      else if cp < 0x800 then [0xC0 + cp div 64, 0x80 + cp mod 64]
      else if cp < 0x10000
      then [0xE0 + cp div 4096, 0x80 + (cp div 64) mod 64, 0x80 + cp mod 64]
      else [0xF0 + cp div 262144, 0x80 + (cp div 4096) mod 64, 0x80 + (cp div 64) mod 64,
            0x80 + cp mod 64])"

definition escaped :: "nat \<Rightarrow> js_error + jsstring \<Rightarrow> js_error + jsstring" where
  "escaped cp rest =
     (case rest of Inl e \<Rightarrow> Inl e | Inr t \<Rightarrow> Inr (concat (map percent (utf8 cp)) @ t))"

fun encodeURIComponent :: "jsstring \<Rightarrow> js_error + jsstring" where
  "encodeURIComponent [] = Inr []"
| "encodeURIComponent (c # cs) =
     (if uriUnreserved c
      then (case encodeURIComponent cs of Inl e \<Rightarrow> Inl e | Inr t \<Rightarrow> Inr (c # t))
      else if c < 0xD800 \<or> 0xDFFF < c then escaped (unat c) (encodeURIComponent cs)
      else if 0xDC00 \<le> c then Inl URIError
      else (case cs of
              [] \<Rightarrow> Inl URIError
            | d # ds \<Rightarrow>
                if 0xDC00 \<le> d \<and> d \<le> 0xDFFF
                then escaped ((unat c - 0xD800) * 0x400 + (unat d - 0xDC00) + 0x10000)
                       (encodeURIComponent ds)
                else Inl URIError))"

section \<open>The geocoders\<close>

text \<open>
  What awaiting \<^verbatim>\<open>fetch(url)\<close> and then \<^verbatim>\<open>response.json()\<close> can do: the fetch rejects, the body
  is not JSON, or a value is parsed.
\<close>

datatype http_reply = NetworkError | BadJson | Body jsval

text \<open>
  The outcome of one geocoder call: the URLs of the GET requests it issued, in order, the
  number of \<^verbatim>\<open>console.error\<close> lines it wrote, and the value returned (\<open>None\<close> is \<^verbatim>\<open>null\<close>).
\<close>

record geocoded =
  requests :: "jsstring list"
  errors_logged :: nat
  returned :: "coord option"

text \<open>
  \<^verbatim>\<open>geocodeWithNominatim\<close> (utils/geocode.js). The whole body sits inside the \<^verbatim>\<open>try\<close>: a
  URIError from building the URL, a rejected fetch, a body that is not JSON and a TypeError
  from a property read or from \<^verbatim>\<open>parseFloat\<close> all end in the \<^verbatim>\<open>catch\<close>, which logs one line
  and returns \<^verbatim>\<open>null\<close>.
\<close>

definition geocodeWithNominatim :: "(jsstring \<Rightarrow> http_reply) \<Rightarrow> jsstring \<Rightarrow> geocoded" where
  "geocodeWithNominatim http address =
     (case encodeURIComponent address of
        Inl e \<Rightarrow> \<lparr>requests = [], errors_logged = 1, returned = None\<rparr>
      | Inr q \<Rightarrow>
          (let url = str ''https://nominatim.openstreetmap.org/search?format=json&q='' @ q;
               caught = \<lparr>requests = [url], errors_logged = 1, returned = None\<rparr>
           in case http url of
                NetworkError \<Rightarrow> caught
              | BadJson \<Rightarrow> caught
              | Body data \<Rightarrow>
                  (case get_prop data PLength of
                     Inl e \<Rightarrow> caught
                   | Inr len \<Rightarrow>
                       if \<not> truthy len
                       then \<lparr>requests = [url], errors_logged = 0, returned = None\<rparr>
                       else (case get_prop data PZero of
                               Inl e \<Rightarrow> caught
                             | Inr first \<Rightarrow>
                                 (case get_prop first (PName (str ''lat'')) of
                                    Inl e \<Rightarrow> caught
                                  | Inr lat \<Rightarrow>
                                      (case parseFloat lat of
                                         Inl e \<Rightarrow> caught
                                       | Inr a \<Rightarrow>
                                           (case get_prop first (PName (str ''lon'')) of
                                              Inl e \<Rightarrow> caught
                                            | Inr lon \<Rightarrow>
                                                (case parseFloat lon of
                                                   Inl e \<Rightarrow> caught
                                                 | Inr b \<Rightarrow>
                                                     \<lparr>requests = [url], errors_logged = 0,
                                                      returned = Some (a, b)\<rparr>))))))))"

text \<open>
  \<^verbatim>\<open>geocodePlace\<close>, the helper of the hint-based map component that utils/geocode.js keeps
  as a commented-out block. An empty place returns \<^verbatim>\<open>null\<close> before any request;
  \<^verbatim>\<open>data?.[0]\<close> reads element 0 unless \<open>data\<close> is \<open>null\<close> or \<open>undefined\<close>; the \<^verbatim>\<open>catch\<close> logs
  nothing.
\<close>

definition optional_zero :: "jsval \<Rightarrow> jsval" where
  "optional_zero data = (case get_prop data PZero of Inl e \<Rightarrow> Undefined | Inr v \<Rightarrow> v)"

definition geocodePlace :: "(jsstring \<Rightarrow> http_reply) \<Rightarrow> jsstring \<Rightarrow> geocoded" where
  "geocodePlace http place =
     (if place = [] then \<lparr>requests = [], errors_logged = 0, returned = None\<rparr>
      else
        case encodeURIComponent place of
          Inl e \<Rightarrow> \<lparr>requests = [], errors_logged = 0, returned = None\<rparr>
        | Inr q \<Rightarrow>
            (let url = str ''https://nominatim.openstreetmap.org/search?format=json&q='' @ q;
                 nothing = \<lparr>requests = [url], errors_logged = 0, returned = None\<rparr>
             in case http url of
                  NetworkError \<Rightarrow> nothing
                | BadJson \<Rightarrow> nothing
                | Body data \<Rightarrow>
                    if \<not> truthy (optional_zero data) then nothing
                    else (case get_prop (optional_zero data) (PName (str ''lat'')) of
                            Inl e \<Rightarrow> nothing
                          | Inr lat \<Rightarrow>
                              (case parseFloat lat of
                                 Inl e \<Rightarrow> nothing
                               | Inr a \<Rightarrow>
                                   (case get_prop (optional_zero data) (PName (str ''lon'')) of
                                      Inl e \<Rightarrow> nothing
                                    | Inr lon \<Rightarrow>
                                        (case parseFloat lon of
                                           Inl e \<Rightarrow> nothing
                                         | Inr b \<Rightarrow>
                                             \<lparr>requests = [url], errors_logged = 0,
                                              returned = Some (a, b)\<rparr>))))))"



section \<open>Origin resolution\<close>

text \<open>
  What \<^verbatim>\<open>navigator.geolocation.getCurrentPosition\<close> reports to its callbacks: a position
  (the accuracy may be missing, which the hint-based component reads as 99999 m) or one of
  the three PositionError codes.
\<close>

record position =
  latitude :: jsnum
  longitude :: jsnum
  accuracy :: "real option"

datatype position_error = PERMISSION_DENIED | POSITION_UNAVAILABLE | TIMEOUT

datatype located = Fix position | Failed position_error

text \<open>
  What one run of the geolocation effect did: the value it passed to \<^verbatim>\<open>setOrigin\<close>
  (\<open>None\<close> when it never called it) and the geocoder requests it caused.
\<close>

record resolution =
  origin_set :: "coord option"
  geocoder_requests :: "jsstring list"

text \<open>
  The coordinates written in the sources, each the Number its decimal literal denotes:
  Akure \<^verbatim>\<open>[7.2526, 5.1931]\<close>, Lagos \<^verbatim>\<open>[6.5244, 3.3792]\<close>, and a device position
  \<^verbatim>\<open>[6.60, 3.40]\<close> for the examples.
\<close>

definition akure :: coord where
  "akure = (toNumber 72526 (- 4), toNumber 51931 (- 4))"

definition lagos :: coord where
  "lagos = (toNumber 65244 (- 4), toNumber 33792 (- 4))"

definition ikeja :: coord where
  "ikeja = (toNumber 660 (- 2), toNumber 340 (- 2))"

text \<open>
  The two callbacks that the geolocation effect of the component in src/unnamed/part_000
  hands to \<^verbatim>\<open>getCurrentPosition\<close>: the device position as it is, and Akure when the device
  reports an error. There is no accuracy check, no hint and no geocoder.
\<close>

definition locate_part000 :: "located \<Rightarrow> resolution" where
  "locate_part000 r =
     (case r of
        Fix p \<Rightarrow> \<lparr>origin_set = Some (latitude p, longitude p), geocoder_requests = []\<rparr>
      | Failed e \<Rightarrow> \<lparr>origin_set = Some akure, geocoder_requests = []\<rparr>)"

text \<open>
  The two callbacks of the geolocation effect of the hint-based component, which
  utils/geocode.js keeps as a commented-out block (props \<open>destination\<close>, \<open>originHint\<close>,
  \<open>originFallback\<close>, the last defaulting to Lagos). Without a destination nothing is
  requested. \<open>cancelled\<close> is the effect's flag as the callback finds it on entry; it is not
  read again after the geocoder has answered. \<^verbatim>\<open>hinted || cand\<close> takes the geocoded pair
  whenever the geocoder returned an array.
\<close>

definition locate_hinted ::
  "(jsstring \<Rightarrow> http_reply) \<Rightarrow> coord option \<Rightarrow> jsstring \<Rightarrow> coord \<Rightarrow> bool \<Rightarrow> located
     \<Rightarrow> resolution"
where
  "locate_hinted http destination originHint originFallback cancelled r =
     (if destination = None \<or> cancelled
      then \<lparr>origin_set = None, geocoder_requests = []\<rparr>
      else
        case r of
          Fix p \<Rightarrow>
            (let cand = (latitude p, longitude p);
                 acc = (case accuracy p of None \<Rightarrow> 99999 | Some a \<Rightarrow> a)
             in if acc > 5000 \<and> originHint \<noteq> []
                then (let g = geocodePlace http originHint
                      in \<lparr>origin_set = Some (case returned g of None \<Rightarrow> cand | Some h \<Rightarrow> h),
                          geocoder_requests = requests g\<rparr>)
                else \<lparr>origin_set = Some cand, geocoder_requests = []\<rparr>)
        | Failed e \<Rightarrow>
            (let g = geocodePlace http originHint
             in \<lparr>origin_set = Some (case returned g of None \<Rightarrow> originFallback | Some h \<Rightarrow> h),
                 geocoder_requests = requests g\<rparr>))"

text \<open>
  The two effects as React runs them. Neither tests that \<^verbatim>\<open>navigator.geolocation\<close> exists
  before calling \<^verbatim>\<open>getCurrentPosition\<close> on it. \<open>None\<close> is a platform without that object:
  the call throws a TypeError, nothing catches it, and no origin is set. \<open>Some r\<close> is a
  platform that has it and reports \<open>r\<close> to the callbacks above. The hint-based effect
  returns before the call when it has no destination.
\<close>

definition useEffect_locate_part000 :: "located option \<Rightarrow> js_error + resolution" where
  "useEffect_locate_part000 geolocation =
     (case geolocation of None \<Rightarrow> Inl TypeError | Some r \<Rightarrow> Inr (locate_part000 r))"

definition useEffect_locate_hinted ::
  "(jsstring \<Rightarrow> http_reply) \<Rightarrow> coord option \<Rightarrow> jsstring \<Rightarrow> coord \<Rightarrow> bool \<Rightarrow> located option
     \<Rightarrow> js_error + resolution"
where
  "useEffect_locate_hinted http destination originHint originFallback cancelled geolocation =
     (if destination = None then Inr \<lparr>origin_set = None, geocoder_requests = []\<rparr>
      else
        case geolocation of
          None \<Rightarrow> Inl TypeError
        | Some r \<Rightarrow> Inr (locate_hinted http destination originHint originFallback cancelled r))"

subsection \<open>The resolver as the specification words it\<close>

text \<open>
  The tagged result of section 3 and the fallback chain of section 4.1, written from the
  specification so that the components above can be compared with it. The device either
  reports a coordinate with its accuracy or fails; \<open>geocode\<close> is the text-to-coordinate
  lookup. A poor fix with no hint is returned as device-sourced.
\<close>

datatype origin_resolution =
    DeviceObserved coord real
  | HintGeocoded coord
  | StaticFallback coord

fun coordinate_of :: "origin_resolution \<Rightarrow> coord" where
  "coordinate_of (DeviceObserved c a) = c"
| "coordinate_of (HintGeocoded c) = c"
| "coordinate_of (StaticFallback c) = c"

definition resolve_spec ::
  "real \<Rightarrow> coord \<Rightarrow> (jsstring \<Rightarrow> coord option) \<Rightarrow> jsstring \<Rightarrow> (coord \<times> real) option
     \<Rightarrow> origin_resolution"
where
  "resolve_spec threshold defaultCoordinate geocode hint device =
     (case device of
        Some (c, a) \<Rightarrow>
          if a \<le> threshold then DeviceObserved c a
          else if hint \<noteq> []
               then (case geocode hint of Some g \<Rightarrow> HintGeocoded g | None \<Rightarrow> DeviceObserved c a)
               else DeviceObserved c a
      | None \<Rightarrow>
          if hint \<noteq> []
          then (case geocode hint of Some g \<Rightarrow> HintGeocoded g | None \<Rightarrow> StaticFallback defaultCoordinate)
          else StaticFallback defaultCoordinate)"

section \<open>The caller of the geocoder\<close>








section \<open>The map surface\<close>

text \<open>
  Leaflet is used through a handful of calls. A map instance holds the layers added to it,
  each under the handle of the layer object, the viewport last requested and the number of
  times \<^verbatim>\<open>remove()\<close> ran on it. \<open>SetView\<close> is \<^verbatim>\<open>setView(center, zoom)\<close>, \<open>FitBounds h\<close> is
  \<^verbatim>\<open>fitBounds\<close> of the bounds of layer \<open>h\<close>, \<open>FitPoints\<close> is \<^verbatim>\<open>fitBounds\<close> of a list of points.
\<close>

datatype layer = TileLayer | Marker coord string | GeoJSON jsval

datatype viewport = SetView coord nat | FitBounds nat | FitPoints "coord list"

record lmap =
  layers :: "(nat \<times> layer) list"
  viewport :: viewport
  removals :: nat

text \<open>
  What the library decides and the components do not: whether \<^verbatim>\<open>L.geoJSON(data)\<close> builds a
  layer or throws on the data, and whether the layer built from the data has bounds that
  \<^verbatim>\<open>fitBounds\<close> accepts.
\<close>

record leaflet =
  geojson_ok :: "jsval \<Rightarrow> bool"
  bounds_ok :: "jsval \<Rightarrow> bool"

text \<open>
  Everything outside a component instance: the map instances created so far, in creation
  order (a map's handle is its position), the next fresh layer handle, the lines written by
  \<^verbatim>\<open>console.error\<close>, and whether React still has the component mounted.
\<close>

record world =
  maps :: "lmap list"
  next_handle :: nat
  console :: "string list"
  mounted :: bool

definition L_map :: "coord \<Rightarrow> nat \<Rightarrow> 'a world_scheme \<Rightarrow> 'a world_scheme" where
  "L_map c z w = w\<lparr>maps := maps w @ [\<lparr>layers = [], viewport = SetView c z, removals = 0\<rparr>]\<rparr>"

definition on_map :: "nat \<Rightarrow> (lmap \<Rightarrow> lmap) \<Rightarrow> 'a world_scheme \<Rightarrow> 'a world_scheme" where
  "on_map m f w = (if m < length (maps w) then w\<lparr>maps := (maps w)[m := f (maps w ! m)]\<rparr> else w)"

definition addTo :: "nat \<Rightarrow> layer \<Rightarrow> 'a world_scheme \<Rightarrow> 'a world_scheme" where
  "addTo m l w =
     on_map m (\<lambda>mp. mp\<lparr>layers := layers mp @ [(next_handle w, l)]\<rparr>)
       (w\<lparr>next_handle := Suc (next_handle w)\<rparr>)"

definition removeLayer :: "nat \<Rightarrow> nat \<Rightarrow> 'a world_scheme \<Rightarrow> 'a world_scheme" where
  "removeLayer m h = on_map m (\<lambda>mp. mp\<lparr>layers := filter (\<lambda>e. fst e \<noteq> h) (layers mp)\<rparr>)"

definition setView :: "nat \<Rightarrow> coord \<Rightarrow> nat \<Rightarrow> 'a world_scheme \<Rightarrow> 'a world_scheme" where
  "setView m c z = on_map m (\<lambda>mp. mp\<lparr>viewport := SetView c z\<rparr>)"

definition fitBounds :: "nat \<Rightarrow> nat \<Rightarrow> 'a world_scheme \<Rightarrow> 'a world_scheme" where
  "fitBounds m h = on_map m (\<lambda>mp. mp\<lparr>viewport := FitBounds h\<rparr>)"

definition remove_map :: "nat \<Rightarrow> 'a world_scheme \<Rightarrow> 'a world_scheme" where
  "remove_map m = on_map m (\<lambda>mp. mp\<lparr>layers := [], removals := Suc (removals mp)\<rparr>)"

definition console_error :: "string \<Rightarrow> 'a world_scheme \<Rightarrow> 'a world_scheme" where
  "console_error msg w = w\<lparr>console := console w @ [msg]\<rparr>"

text \<open>Observations of a map: its route overlays and its markers carrying a given popup text.\<close>

fun is_overlay :: "nat \<times> layer \<Rightarrow> bool" where
  "is_overlay (h, GeoJSON d) = True"
| "is_overlay (h, l) = False"

definition overlays :: "lmap \<Rightarrow> (nat \<times> layer) list" where
  "overlays mp = filter is_overlay (layers mp)"

fun is_marker :: "string \<Rightarrow> nat \<times> layer \<Rightarrow> bool" where
  "is_marker t (h, Marker c u) = (u = t)"
| "is_marker t (h, l) = False"

definition markers :: "string \<Rightarrow> lmap \<Rightarrow> (nat \<times> layer) list" where
  "markers t mp = filter (is_marker t) (layers mp)"

section \<open>The route sessions\<close>

text \<open>
  What awaiting the directions request and \<^verbatim>\<open>res.json()\<close> can do: the fetch rejects, the body
  is not JSON, or a response arrives with its \<^verbatim>\<open>ok\<close> flag and parsed body.
\<close>

datatype route_reply = FetchRejected | JsonRejected | Response bool jsval

text \<open>
  The two components that keep the map in a ref share their state: \<open>mapRef\<close>,
  \<open>routeLayerRef\<close>, and the directions requests still in flight, each with the origin and
  destination it was issued for.
\<close>

record session = world +
  mapRef :: "nat option"
  routeLayerRef :: "nat option"
  in_flight :: "(coord \<times> coord) list"

definition mount :: session where
  "mount = \<lparr>maps = [], next_handle = 0, console = [], mounted = True,
            mapRef = None, routeLayerRef = None, in_flight = []\<rparr>"

definition nigeria :: coord where
  "nigeria = (toNumber 9082 (- 3), toNumber 86753 (- 4))"

definition take_out :: "nat \<Rightarrow> 'a list \<Rightarrow> 'a list" where
  "take_out i xs = take i xs @ drop (Suc i) xs"

text \<open>What React and the network do to a mounted component.\<close>

datatype event = Update "coord option" "coord option" | Resolve nat route_reply | Unmount

subsection \<open>MapComponent of utils/geocode.js (props origin, destination)\<close>

text \<open>
  The effect body. The map is created when \<open>mapRef\<close> is empty, centred on the origin or on
  the centre of Nigeria at zoom 6, with the tile layer; a present origin gets a marker and
  the view; a present destination gets a marker; with both present the route request
  is sent.
\<close>

definition useEffect_geocode :: "coord option \<Rightarrow> coord option \<Rightarrow> session \<Rightarrow> session" where
  "useEffect_geocode origin destination s =
     (let (m, s1) =
            (case mapRef s of
               Some m \<Rightarrow> (m, s)
             | None \<Rightarrow>
                 (length (maps s),
                  (addTo (length (maps s)) TileLayer
                     (L_map (case origin of None \<Rightarrow> nigeria | Some c \<Rightarrow> c) 6 s))
                  \<lparr>mapRef := Some (length (maps s))\<rparr>));
          s2 = (case origin of
                  None \<Rightarrow> s1
                | Some c \<Rightarrow> setView m c 13 (addTo m (Marker c ''Your Location'') s1));
          s3 = (case destination of
                  None \<Rightarrow> s2
                | Some d \<Rightarrow> addTo m (Marker d ''Hospital'') s2)
      in case origin of
           None \<Rightarrow> s3
         | Some c \<Rightarrow>
             (case destination of
                None \<Rightarrow> s3
              | Some d \<Rightarrow> s3\<lparr>in_flight := in_flight s3 @ [(c, d)]\<rparr>))"

text \<open>
  The rest of \<^verbatim>\<open>getRoute\<close> once the request has settled. There is no test of \<^verbatim>\<open>res.ok\<close>: any
  parsed body goes to \<^verbatim>\<open>L.geoJSON\<close>, after the old route layer has been removed. Whatever
  throws inside is caught and logged.
\<close>

definition getRoute_geocode :: "leaflet \<Rightarrow> route_reply \<Rightarrow> session \<Rightarrow> session" where
  "getRoute_geocode lib reply s =
     (case reply of
        FetchRejected \<Rightarrow> console_error ''Route error:'' s
      | JsonRejected \<Rightarrow> console_error ''Route error:'' s
      | Response ok data \<Rightarrow>
          (case mapRef s of
             None \<Rightarrow> console_error ''Route error:'' s
           | Some m \<Rightarrow>
               (let s1 = (case routeLayerRef s of None \<Rightarrow> s | Some h \<Rightarrow> removeLayer m h s)
                in if \<not> geojson_ok lib data then console_error ''Route error:'' s1
                   else (addTo m (GeoJSON data) s1)\<lparr>routeLayerRef := Some (next_handle s1)\<rparr>)))"

fun step_geocode :: "leaflet \<Rightarrow> session \<Rightarrow> event \<Rightarrow> session" where
  "step_geocode lib s (Update origin destination) =
     (if mounted s then useEffect_geocode origin destination s else s)"
| "step_geocode lib s (Resolve i reply) =
     (if i < length (in_flight s)
      then getRoute_geocode lib reply (s\<lparr>in_flight := take_out i (in_flight s)\<rparr>)
      else s)"
| "step_geocode lib s Unmount = s\<lparr>mounted := False\<rparr>"

definition run_geocode :: "leaflet \<Rightarrow> event list \<Rightarrow> session" where
  "run_geocode lib es = foldl (step_geocode lib) mount es"

subsection \<open>MapComponent of src/unnamed/part_000 (prop destination, state origin)\<close>

text \<open>
  The effect body returns at once unless origin and destination are both there. The map is
  created when \<open>mapRef\<close> is empty, centred on the origin at zoom 13; both markers are added;
  the route request is sent.
\<close>

definition useEffect_part000 :: "coord option \<Rightarrow> coord option \<Rightarrow> session \<Rightarrow> session" where
  "useEffect_part000 origin destination s =
     (case origin of
        None \<Rightarrow> s
      | Some c \<Rightarrow>
          (case destination of
             None \<Rightarrow> s
           | Some d \<Rightarrow>
               (let (m, s1) =
                      (case mapRef s of
                         Some m \<Rightarrow> (m, s)
                       | None \<Rightarrow>
                           (length (maps s),
                            (addTo (length (maps s)) TileLayer (L_map c 13 s))
                            \<lparr>mapRef := Some (length (maps s))\<rparr>));
                    s2 = addTo m (Marker c ''You are here'') s1;
                    s3 = addTo m (Marker d ''Hospital'') s2
                in s3\<lparr>in_flight := in_flight s3 @ [(c, d)]\<rparr>)))"

text \<open>
  The rest of \<^verbatim>\<open>getRoute\<close>: a response that is not \<^verbatim>\<open>ok\<close> is logged and dropped; otherwise
  the old route layer is removed, the new one drawn and the map fitted to it.
\<close>

definition getRoute_part000 :: "leaflet \<Rightarrow> route_reply \<Rightarrow> session \<Rightarrow> session" where
  "getRoute_part000 lib reply s =
     (case reply of
        FetchRejected \<Rightarrow> console_error ''Route error:'' s
      | JsonRejected \<Rightarrow> console_error ''Route error:'' s
      | Response ok data \<Rightarrow>
          if \<not> ok then console_error ''ORS Error:'' s
          else
            (case mapRef s of
               None \<Rightarrow> console_error ''Route error:'' s
             | Some m \<Rightarrow>
                 (let s1 = (case routeLayerRef s of None \<Rightarrow> s | Some h \<Rightarrow> removeLayer m h s)
                  in if \<not> geojson_ok lib data then console_error ''Route error:'' s1
                     else
                       (let s2 = (addTo m (GeoJSON data) s1)\<lparr>routeLayerRef := Some (next_handle s1)\<rparr>
                        in if bounds_ok lib data then fitBounds m (next_handle s1) s2
                           else console_error ''Route error:'' s2))))"

fun step_part000 :: "leaflet \<Rightarrow> session \<Rightarrow> event \<Rightarrow> session" where
  "step_part000 lib s (Update origin destination) =
     (if mounted s then useEffect_part000 origin destination s else s)"
| "step_part000 lib s (Resolve i reply) =
     (if i < length (in_flight s)
      then getRoute_part000 lib reply (s\<lparr>in_flight := take_out i (in_flight s)\<rparr>)
      else s)"
| "step_part000 lib s Unmount = s\<lparr>mounted := False\<rparr>"

definition run_part000 :: "leaflet \<Rightarrow> event list \<Rightarrow> session" where
  "run_part000 lib es = foldl (step_part000 lib) mount es"

subsection \<open>MapComponent of src/components/Map.jsx (props origin, destination)\<close>

text \<open>
  This component keeps no ref. Each effect run builds a map of its own and returns a
  cleanup that removes it; React calls the cleanup before the next run and at unmount.
  \<open>cleanup\<close> is the map the pending cleanup will remove, \<open>awaiting\<close> the maps captured by
  the route requests still in flight.
\<close>

record remounting = world +
  cleanup :: "nat option"
  awaiting :: "nat list"

definition mount_Map :: remounting where
  "mount_Map = \<lparr>maps = [], next_handle = 0, console = [], mounted = True,
                cleanup = None, awaiting = []\<rparr>"

datatype map_event = Render coord coord | Settle nat route_reply | Remove

definition useEffect_Map :: "coord \<Rightarrow> coord \<Rightarrow> remounting \<Rightarrow> remounting" where
  "useEffect_Map origin destination s =
     (let m = length (maps s);
          s1 = addTo m TileLayer (L_map origin 13 s);
          s2 = addTo m (Marker origin ''Your Location'') s1;
          s3 = addTo m (Marker destination ''Hospital'') s2
      in s3\<lparr>cleanup := Some m, awaiting := awaiting s3 @ [m]\<rparr>)"

definition cleanup_Map :: "remounting \<Rightarrow> remounting" where
  "cleanup_Map s = (case cleanup s of None \<Rightarrow> s | Some m \<Rightarrow> (remove_map m s)\<lparr>cleanup := None\<rparr>)"

text \<open>
  The rest of \<^verbatim>\<open>getRoute\<close> for the request that captured map \<open>m\<close>. The body is never parsed:
  the layer is built from \<^verbatim>\<open>res.data\<close>, which a fetch response does not have, and is added to
  the captured map whether or not that map has been removed since.
\<close>

definition getRoute_Map :: "leaflet \<Rightarrow> route_reply \<Rightarrow> nat \<Rightarrow> remounting \<Rightarrow> remounting" where
  "getRoute_Map lib reply m s =
     (case reply of
        FetchRejected \<Rightarrow> console_error ''Route error:'' s
      | JsonRejected \<Rightarrow>
          if geojson_ok lib Undefined then addTo m (GeoJSON Undefined) s
          else console_error ''Route error:'' s
      | Response ok data \<Rightarrow>
          if geojson_ok lib Undefined then addTo m (GeoJSON Undefined) s
          else console_error ''Route error:'' s)"

fun step_Map :: "leaflet \<Rightarrow> remounting \<Rightarrow> map_event \<Rightarrow> remounting" where
  "step_Map lib s (Render origin destination) =
     (if mounted s then useEffect_Map origin destination (cleanup_Map s) else s)"
| "step_Map lib s (Settle i reply) =
     (if i < length (awaiting s)
      then getRoute_Map lib reply (awaiting s ! i) (s\<lparr>awaiting := take_out i (awaiting s)\<rparr>)
      else s)"
| "step_Map lib s Remove = (cleanup_Map s)\<lparr>mounted := False\<rparr>"

definition run_Map :: "leaflet \<Rightarrow> map_event list \<Rightarrow> remounting" where
  "run_Map lib es = foldl (step_Map lib) mount_Map es"

text \<open>A library that accepts every body, and a sample route body for a pair of points.\<close>

definition lenient :: leaflet where
  "lenient = \<lparr>geojson_ok = (\<lambda>d. True), bounds_ok = (\<lambda>d. True)\<rparr>"

text \<open>
  A library that refuses every body but an object with a \<^verbatim>\<open>type\<close> member, and finds no
  bounds to fit unless \<^verbatim>\<open>features\<close> is a non-empty array.
\<close>

definition strict :: leaflet where
  "strict =
     \<lparr>geojson_ok =
        (\<lambda>d. case d of JObj kvs \<Rightarrow> own_member kvs (str ''type'') \<noteq> Undefined | _ \<Rightarrow> False),
      bounds_ok =
        (\<lambda>d. case d of
               JObj kvs \<Rightarrow>
                 (case own_member kvs (str ''features'') of JArr (f # fs) \<Rightarrow> True | _ \<Rightarrow> False)
             | _ \<Rightarrow> False)\<rparr>"

definition route_body :: "coord \<Rightarrow> coord \<Rightarrow> jsval" where
  "route_body c d =
     JObj [(str ''type'', JStr (str ''FeatureCollection'')),
           (str ''features'',
            JArr [JObj [(str ''type'', JStr (str ''Feature'')),
                        (str ''geometry'',
                         JObj [(str ''type'', JStr (str ''LineString'')),
                               (str ''coordinates'',
                                JArr [JArr [JNum (snd c), JNum (fst c)],
                                      JArr [JNum (snd d), JNum (fst d)]])])]])]"

text \<open>
  The device report as the specification's resolver takes it: the coordinate with its
  accuracy, a missing accuracy counting as 99999 m, or nothing.
\<close>

definition reported :: "located \<Rightarrow> (coord \<times> real) option" where
  "reported r =
     (case r of
        Fix p \<Rightarrow> Some ((latitude p, longitude p), (case accuracy p of None \<Rightarrow> 99999 | Some a \<Rightarrow> a))
      | Failed e \<Rightarrow> None)"

section \<open>Observations and invariants\<close>

text \<open>
  Two readings of the surfaces: the markers carrying popup text \<open>t\<close>, over all maps in
  order, and the route overlays of each map.
\<close>

definition shown :: "string \<Rightarrow> 'a world_scheme \<Rightarrow> layer list" where
  "shown t w = concat (map (\<lambda>mp. map snd (markers t mp)) (maps w))"

definition drawn :: "'a world_scheme \<Rightarrow> layer list list" where
  "drawn w = map (\<lambda>mp. map snd (overlays mp)) (maps w)"

text \<open>Replies that reach the \<^verbatim>\<open>catch\<close> of \<^verbatim>\<open>getRoute\<close>.\<close>

fun thrown :: "route_reply \<Rightarrow> bool" where
  "thrown FetchRejected = True"
| "thrown JsonRejected = True"
| "thrown (Response ok data) = False"

text \<open>A run of effect executions of Map.jsx, one per pair of props.\<close>

definition renders :: "(coord \<times> coord) list \<Rightarrow> map_event list" where
  "renders ps = map (\<lambda>p. Render (fst p) (snd p)) ps"

text \<open>A run of effect executions with origin and destination both present.\<close>

definition updates :: "(coord \<times> coord) list \<Rightarrow> event list" where
  "updates ps = map (\<lambda>p. Update (Some (fst p)) (Some (snd p))) ps"

text \<open>
  The state \<^verbatim>\<open>getRoute\<close> reaches once it has taken the old route layer off map \<open>m\<close>.
\<close>

definition cleared :: "nat \<Rightarrow> session \<Rightarrow> session" where
  "cleared m s = (case routeLayerRef s of None \<Rightarrow> s | Some h \<Rightarrow> removeLayer m h s)"

text \<open>
  What holds of a ref-keeping component in every state it can reach: the route ref names a
  handle already handed out; before the map exists nothing is in flight; once it exists it
  is the only map, it has never been removed, its overlays are at most the one the route
  ref names, and no other layer carries that handle.
\<close>

definition session_inv :: "session \<Rightarrow> bool" where
  "session_inv s \<longleftrightarrow>
     (\<forall>h. routeLayerRef s = Some h \<longrightarrow> h < next_handle s) \<and>
     (case mapRef s of
        None \<Rightarrow> maps s = [] \<and> in_flight s = []
      | Some m \<Rightarrow>
          m = 0 \<and> length (maps s) = 1 \<and> removals (maps s ! 0) = 0 \<and>
          length (overlays (maps s ! 0)) \<le> 1 \<and>
          (\<forall>e \<in> set (overlays (maps s ! 0)). routeLayerRef s = Some (fst e)) \<and>
          (\<forall>e \<in> set (layers (maps s ! 0)).
              fst e < next_handle s \<and> (routeLayerRef s = Some (fst e) \<longrightarrow> is_overlay e)))"

text \<open>
  What holds of Map.jsx in every state it can reach: on each map, overlays plus requests
  still in flight for it are at most one; requests in flight name existing maps; a map has
  been removed once unless it is the one the pending cleanup holds, which has not been
  removed; after unmount no cleanup is pending.
\<close>

definition remount_inv :: "remounting \<Rightarrow> bool" where
  "remount_inv s \<longleftrightarrow>
     (\<forall>m < length (maps s). length (overlays (maps s ! m)) + count_list (awaiting s) m \<le> 1) \<and>
     (\<forall>m \<in> set (awaiting s). m < length (maps s)) \<and>
     (\<forall>m < length (maps s). removals (maps s ! m) = (if cleanup s = Some m then 0 else 1)) \<and>
     (\<not> mounted s \<longrightarrow> cleanup s = None)"

section \<open>Properties of the geocoder and of origin resolution\<close>

lemma geocodePlace_empty: "geocodePlace http [] = \<lparr>requests = [], errors_logged = 0, returned = None\<rparr>"
  by (simp add: geocodePlace_def)



lemma encodeURIComponent_unreserved:
  "list_all uriUnreserved q \<Longrightarrow> encodeURIComponent q = Inr q"
  by (induction q) simp_all

text \<open>
  The escaped form determines the string: every kept code unit stands for itself, \<^verbatim>\<open>%\<close> is
  never kept, and the UTF-8 bytes after it determine the code point and, with it, the one or
  two code units it was read from.
\<close>

lemma str_hex_distinct: "distinct (str ''0123456789ABCDEF'')"
  by (simp add: str_def)

lemma str_hex_length: "length (str ''0123456789ABCDEF'') = 16"
  by (simp add: str_def)

lemma hexDigit_eq: "hexDigit m = hexDigit n \<longleftrightarrow> m mod 16 = n mod 16"
proof -
  have "m mod 16 < length (str ''0123456789ABCDEF'')" "n mod 16 < length (str ''0123456789ABCDEF'')"
    unfolding str_hex_length by simp_all
  then show ?thesis
    unfolding hexDigit_def by (rule nth_eq_iff_index_eq [OF str_hex_distinct])
qed

lemma byte_eq:
  assumes "a < 256" "b < 256" "a div 16 mod 16 = b div 16 mod 16" "a mod 16 = b mod 16"
  shows "a = (b::nat)"
proof -
  have "a div 16 < 16" "b div 16 < 16" using assms(1,2) by simp_all
  with assms(3) have "a div 16 = b div 16" by simp
  with assms(4) show ?thesis by (metis div_mult_mod_eq)
qed

lemma percent_eq:
  "a < 256 \<Longrightarrow> b < 256 \<Longrightarrow> percent a @ t = percent b @ t' \<longleftrightarrow> a = b \<and> t = t'"
  using byte_eq [of a b] by (auto simp: percent_def hexDigit_eq)

lemma percents_eq:
  assumes "length bs = length bs'" "\<forall>b\<in>set bs. b < 256" "\<forall>b\<in>set bs'. b < 256"
    and "concat (map percent bs) @ t = concat (map percent bs') @ t'"
  shows "bs = bs' \<and> t = t'"
  using assms
proof (induction bs bs' rule: list_induct2)
  case Nil
  then show ?case by simp
next
  case (Cons x xs y ys)
  from Cons.prems(3) have "percent x @ (concat (map percent xs) @ t) = percent y @ (concat (map percent ys) @ t')"
    by simp
  with Cons.prems(1,2) have "x = y" "concat (map percent xs) @ t = concat (map percent ys) @ t'"
    by (simp_all add: percent_eq)
  with Cons show ?case by simp
qed

lemma utf8_bytes: "cp < 0x110000 \<Longrightarrow> b \<in> set (utf8 cp) \<Longrightarrow> b < 256"
  by (auto simp: utf8_def split: if_splits)

lemma utf8_shape:
  assumes "cp < 0x110000"
  shows "\<exists>h bs. utf8 cp = h # bs \<and>
           length bs = (if h < 0x80 then 0 else if h < 0xE0 then 1 else if h < 0xF0 then 2 else 3)"
  using assms by (auto simp: utf8_def)


lemma div_mod_64_eq: "(a::nat) div 64 = b div 64 \<Longrightarrow> a mod 64 = b mod 64 \<Longrightarrow> a = b"
  by (metis div_mult_mod_eq)

lemma div_64_64: "(a::nat) div 64 div 64 = a div 4096"
  by (simp add: div_mult2_eq [symmetric])

lemma div_4096_64: "(a::nat) div 4096 div 64 = a div 262144"
  by (simp add: div_mult2_eq [symmetric])

lemma utf8_inj:
  assumes "cp < 0x110000" "cp' < 0x110000" "utf8 cp = utf8 cp'"
  shows "cp = cp'"
  using assms
  apply (auto simp: utf8_def split: if_splits)
  subgoal by (metis div_mod_64_eq)
  subgoal by (metis div_mod_64_eq div_64_64)
  subgoal by (metis div_mod_64_eq div_64_64 div_4096_64)
  done

lemma escape_eq:
  assumes "cp < 0x110000" "cp' < 0x110000"
    and "concat (map percent (utf8 cp)) @ t = concat (map percent (utf8 cp')) @ t'"
  shows "cp = cp' \<and> t = t'"
proof -
  from utf8_shape [OF assms(1)] obtain h bs where u: "utf8 cp = h # bs"
    and l: "length bs = (if h < 0x80 then 0 else if h < 0xE0 then 1 else if h < 0xF0 then 2 else 3)"
    by blast
  from utf8_shape [OF assms(2)] obtain h' bs' where u': "utf8 cp' = h' # bs'"
    and l': "length bs' = (if h' < 0x80 then 0 else if h' < 0xE0 then 1 else if h' < 0xF0 then 2 else 3)"
    by blast
  have b: "\<forall>b\<in>set (utf8 cp). b < 256" "\<forall>b\<in>set (utf8 cp'). b < 256"
    using utf8_bytes assms(1,2) by blast+
  from assms(3) u u' have "percent h @ (concat (map percent bs) @ t)
      = percent h' @ (concat (map percent bs') @ t')"
    by simp
  with b u u' have "h = h'" by (simp add: percent_eq)
  with l l' u u' have "length (utf8 cp) = length (utf8 cp')" by simp
  from percents_eq [OF this b assms(3)] have "utf8 cp = utf8 cp'" "t = t'" by simp_all
  with utf8_inj [OF assms(1,2)] show ?thesis by simp
qed

lemma escape_head: "cp < 0x110000 \<Longrightarrow> \<exists>r. concat (map percent (utf8 cp)) @ t = 0x25 # r"
  using utf8_shape [of cp] by (auto simp: percent_def)

lemma unreserved_not_percent: "uriUnreserved c \<Longrightarrow> c \<noteq> 0x25"
  by (auto simp: uriUnreserved_def str_def)


lemma encodeURIComponent_cases:
  assumes "encodeURIComponent q = Inr e"
  shows "(q = [] \<and> e = []) \<or>
         (\<exists>c cs t. q = c # cs \<and> uriUnreserved c \<and> encodeURIComponent cs = Inr t \<and> e = c # t) \<or>
         (\<exists>pre cs cp t. q = pre @ cs \<and> pre \<noteq> [] \<and> \<not> uriUnreserved (hd pre) \<and> cp < 0x110000 \<and>
              encodeURIComponent cs = Inr t \<and> e = concat (map percent (utf8 cp)) @ t \<and>
              pre = (if cp < 0x10000 then [of_nat cp]
                     else [of_nat (0xD800 + (cp - 0x10000) div 0x400),
                           of_nat (0xDC00 + (cp - 0x10000) mod 0x400)]))"
proof (cases q)
  case Nil
  with assms show ?thesis by simp
next
  case (Cons c cs)
  show ?thesis
  proof (cases "uriUnreserved c")
    case True
    with assms Cons show ?thesis by (auto split: sum.splits)
  next
    case False
    show ?thesis
    proof (cases "c < 0xD800 \<or> 0xDFFF < c")
      case True
      with assms Cons False obtain t where t: "encodeURIComponent cs = Inr t"
          "e = concat (map percent (utf8 (unat c))) @ t"
        by (auto simp: escaped_def split: sum.splits)
      have "unat c < 2 ^ LENGTH(16)" by (rule unsigned_less)
      then have "unat c < 0x10000" by simp
      with t Cons False show ?thesis
        by (intro disjI2 exI [of _ "[c]"] exI [of _ cs] exI [of _ "unat c"] exI [of _ t]) simp
    next
      case surr: False
      with assms Cons False obtain d ds t where d: "cs = d # ds" "c < 0xDC00" "0xDC00 \<le> d" "d \<le> 0xDFFF"
          "encodeURIComponent ds = Inr t"
          "e = concat (map percent (utf8 ((unat c - 0xD800) * 0x400 + (unat d - 0xDC00) + 0x10000))) @ t"
        by (auto simp: escaped_def not_le not_less split: sum.splits list.splits if_splits)
      let ?cp = "(unat c - 0xD800) * 0x400 + (unat d - 0xDC00) + 0x10000"
      from surr d have r: "0xD800 \<le> unat c" "unat c < 0xDC00" "0xDC00 \<le> unat d" "unat d \<le> 0xDFFF"
        by (simp_all add: word_le_nat_alt word_less_nat_alt not_le not_less)
      then have cp: "?cp < 0x110000" "\<not> ?cp < 0x10000" by simp_all
      define a b where "a = unat c - 0xD800" and "b = unat d - 0xDC00"
      have ab: "b < 0x400" "0xD800 + a = unat c" "0xDC00 + b = unat d" "?cp - 0x10000 = a * 0x400 + b"
        using r by (simp_all add: a_def b_def)
      have "(?cp - 0x10000) div 0x400 = a" "(?cp - 0x10000) mod 0x400 = b"
        unfolding ab(4) using ab(1) by simp_all
      then have "[of_nat (0xD800 + (?cp - 0x10000) div 0x400), of_nat (0xDC00 + (?cp - 0x10000) mod 0x400)]
                   = [c, d]"
        using ab(2,3) by simp
      with cp d Cons False show ?thesis
        by (intro disjI2 exI [of _ "[c, d]"] exI [of _ ds] exI [of _ ?cp] exI [of _ t]) simp
    qed
  qed
qed

lemma encodeURIComponent_inj:
  "encodeURIComponent q = Inr e \<Longrightarrow> encodeURIComponent q' = Inr e \<Longrightarrow> q' = q"
proof (induction "length q" arbitrary: q q' e rule: less_induct)
  case less
  from encodeURIComponent_cases [OF less.prems(1)] encodeURIComponent_cases [OF less.prems(2)]
  show ?case
  proof (elim disjE exE conjE)
    assume "q = []" "q' = []" then show ?thesis by simp
  next
    fix c cs t assume "e = []" "e = c # t" then show ?thesis by simp
  next
    fix c cs t assume "e = c # t" "e = []" then show ?thesis by simp
  next
    fix pre cs cp t assume "e = []" "cp < 0x110000" "e = concat (map percent (utf8 cp)) @ t"
    then show ?thesis using escape_head [of cp t] by (metis list.distinct(1))
  next
    fix pre cs cp t assume "e = concat (map percent (utf8 cp)) @ t" "cp < 0x110000" "e = []"
    then show ?thesis using escape_head [of cp t] by (metis list.distinct(1))
  next
    fix c cs t c' cs' t'
    assume a: "q = c # cs" "encodeURIComponent cs = Inr t" "e = c # t"
       "q' = c' # cs'" "encodeURIComponent cs' = Inr t'" "e = c' # t'"
    then have "c = c'" "t = t'" by simp_all
    with a less.hyps [of cs t cs'] show ?thesis by simp
  next
    fix c cs t pre cs' cp t'
    assume "uriUnreserved c" "e = c # t" "cp < 0x110000" "e = concat (map percent (utf8 cp)) @ t'"
    then show ?thesis using escape_head [of cp t'] unreserved_not_percent [of c]
      by (metis list.inject)
  next
    fix c cs t pre cs' cp t'
    assume "uriUnreserved c" "e = c # t" "cp < 0x110000" "e = concat (map percent (utf8 cp)) @ t'"
    then show ?thesis using escape_head [of cp t'] unreserved_not_percent [of c]
      by (metis list.inject)
  next
    fix pre cs cp t pre' cs' cp' t'
    assume a: "q = pre @ cs" "pre \<noteq> []" "cp < 0x110000" "encodeURIComponent cs = Inr t"
        "e = concat (map percent (utf8 cp)) @ t"
        "pre = (if cp < 0x10000 then [of_nat cp]
                else [of_nat (0xD800 + (cp - 0x10000) div 0x400),
                      of_nat (0xDC00 + (cp - 0x10000) mod 0x400)])"
      and b: "q' = pre' @ cs'" "cp' < 0x110000" "encodeURIComponent cs' = Inr t'"
        "e = concat (map percent (utf8 cp')) @ t'"
        "pre' = (if cp' < 0x10000 then [of_nat cp']
                else [of_nat (0xD800 + (cp' - 0x10000) div 0x400),
                      of_nat (0xDC00 + (cp' - 0x10000) mod 0x400)])"
    have "concat (map percent (utf8 cp)) @ t = concat (map percent (utf8 cp')) @ t'"
      using a(5) b(4) by simp
    from escape_eq [OF a(3) b(2) this] have "cp = cp'" "t = t'" by simp_all
    with a b have "pre = pre'" by simp
    moreover have "length cs < length q" using a(1,2) by (cases pre) simp_all
    from less.hyps [OF this a(4)] b(3) \<open>t = t'\<close> have "cs' = cs" by simp
    ultimately show ?thesis using a(1) b(1) by simp
  qed
qed

lemma get_prop_read_member:
  "x \<noteq> JNull \<Longrightarrow> x \<noteq> Undefined \<Longrightarrow> get_prop x (PName k) = Inr (read_member x k)"
  by (cases x) (simp_all add: read_member_def)

lemma geocodeWithNominatim_on_array:
  assumes "encodeURIComponent q = Inr e"
    and "http (str ''https://nominatim.openstreetmap.org/search?format=json&q='' @ e)
           = Body (JArr (x # xs))"
  shows "returned (geocodeWithNominatim http q)
           = (if x = JNull \<or> x = Undefined
                 \<or> ToString_throws (read_member x (str ''lat''))
                 \<or> ToString_throws (read_member x (str ''lon''))
              then None
              else Some (parseFloat_value (read_member x (str ''lat'')),
                         parseFloat_value (read_member x (str ''lon''))))"
proof (cases "x = JNull \<or> x = Undefined")
  case True
  with assms show ?thesis
    by (auto simp: geocodeWithNominatim_def Let_def)
next
  case False
  then have "get_prop x (PName (str ''lat'')) = Inr (read_member x (str ''lat''))"
            "get_prop x (PName (str ''lon'')) = Inr (read_member x (str ''lon''))"
    by (simp_all add: get_prop_read_member)
  with assms False show ?thesis
    by (simp add: geocodeWithNominatim_def Let_def parseFloat_def)
qed

text \<open>
  C8, as stated, fails. The body \<^verbatim>\<open>[null]\<close> is a non-empty array, yet reading \<^verbatim>\<open>lat\<close> from
  its first element throws, the \<^verbatim>\<open>catch\<close> takes over and the result is \<^verbatim>\<open>null\<close>, not a
  coordinate. And for a query that holds a surrogate without its partner
  \<^verbatim>\<open>encodeURIComponent\<close> throws before the fetch: no GET is issued at all.
\<close>

theorem geocodeWithNominatim_null_element:
  "geocodeWithNominatim (\<lambda>u. Body (JArr [JNull])) (str ''Lagos'')
     = \<lparr>requests = [str ''https://nominatim.openstreetmap.org/search?format=json&q=Lagos''],
        errors_logged = 1, returned = None\<rparr> \<and>
   geocodeWithNominatim
       (\<lambda>u. Body (JArr [JObj [(str ''lat'', JStr (str ''6.5244'')),
                               (str ''lon'', JStr (str ''3.3792''))]]))
       [0x4C, 0xD800]
     = \<lparr>requests = [], errors_logged = 1, returned = None\<rparr>"
  by (simp add: geocodeWithNominatim_def str_def uriUnreserved_def)

text \<open>
  C8, amended. \<^verbatim>\<open>geocodeWithNominatim\<close> never throws. When the query is well-formed UTF-16
  it issues exactly one GET, to the Nominatim search URL followed by the percent-encoded
  query (the query itself when it needs no escaping); no other query gives that URL. On a
  body that is a non-empty array it returns the pair of \<^verbatim>\<open>parseFloat\<close> of the first element's
  \<^verbatim>\<open>lat\<close> and \<^verbatim>\<open>lon\<close>, latitude first, unless that element is \<open>null\<close> or one of the two
  fields cannot be turned into a string, in which case it returns \<^verbatim>\<open>null\<close>. On an empty
  array, a rejected fetch and a body that is not JSON it returns \<^verbatim>\<open>null\<close>. When the query
  holds a lone surrogate it issues no request and returns \<^verbatim>\<open>null\<close>.
\<close>

theorem geocodeWithNominatim_contract:
  "(encodeURIComponent q = Inl err \<longrightarrow>
      geocodeWithNominatim http q = \<lparr>requests = [], errors_logged = 1, returned = None\<rparr>) \<and>
   (list_all uriUnreserved q \<longrightarrow> encodeURIComponent q = Inr q) \<and>
   (encodeURIComponent q = Inr e \<longrightarrow>
      requests (geocodeWithNominatim http q)
        = [str ''https://nominatim.openstreetmap.org/search?format=json&q='' @ e] \<and>
      (http (str ''https://nominatim.openstreetmap.org/search?format=json&q='' @ e)
         = Body (JArr (x # xs)) \<longrightarrow>
       returned (geocodeWithNominatim http q)
         = (if x = JNull \<or> x = Undefined
               \<or> ToString_throws (read_member x (str ''lat''))
               \<or> ToString_throws (read_member x (str ''lon''))
            then None
            else Some (parseFloat_value (read_member x (str ''lat'')),
                       parseFloat_value (read_member x (str ''lon''))))) \<and>
      (http (str ''https://nominatim.openstreetmap.org/search?format=json&q='' @ e)
         = Body (JArr []) \<longrightarrow>
       returned (geocodeWithNominatim http q) = None) \<and>
      (http (str ''https://nominatim.openstreetmap.org/search?format=json&q='' @ e)
         = NetworkError \<longrightarrow>
       returned (geocodeWithNominatim http q) = None) \<and>
      (http (str ''https://nominatim.openstreetmap.org/search?format=json&q='' @ e)
         = BadJson \<longrightarrow>
       returned (geocodeWithNominatim http q) = None) \<and>
      (encodeURIComponent q' = Inr e \<longrightarrow> q' = q))"
proof (intro conjI impI)
  assume "encodeURIComponent q = Inl err"
  then show "geocodeWithNominatim http q = \<lparr>requests = [], errors_logged = 1, returned = None\<rparr>"
    by (simp add: geocodeWithNominatim_def)
next
  assume "list_all uriUnreserved q"
  then show "encodeURIComponent q = Inr q" by (rule encodeURIComponent_unreserved)
next
  assume "encodeURIComponent q = Inr e"
  then show "requests (geocodeWithNominatim http q)
        = [str ''https://nominatim.openstreetmap.org/search?format=json&q='' @ e]"
    by (simp add: geocodeWithNominatim_def Let_def split: http_reply.splits sum.splits)
next
  assume "encodeURIComponent q = Inr e"
    and "http (str ''https://nominatim.openstreetmap.org/search?format=json&q='' @ e)
           = Body (JArr (x # xs))"
  then show "returned (geocodeWithNominatim http q)
         = (if x = JNull \<or> x = Undefined
               \<or> ToString_throws (read_member x (str ''lat''))
               \<or> ToString_throws (read_member x (str ''lon''))
            then None
            else Some (parseFloat_value (read_member x (str ''lat'')),
                       parseFloat_value (read_member x (str ''lon''))))"
    by (rule geocodeWithNominatim_on_array)
next
  assume "encodeURIComponent q = Inr e"
    and "http (str ''https://nominatim.openstreetmap.org/search?format=json&q='' @ e)
           = Body (JArr [])"
  then show "returned (geocodeWithNominatim http q) = None"
    by (simp add: geocodeWithNominatim_def Let_def)
next
  assume "encodeURIComponent q = Inr e"
    and "http (str ''https://nominatim.openstreetmap.org/search?format=json&q='' @ e)
           = NetworkError"
  then show "returned (geocodeWithNominatim http q) = None"
    by (simp add: geocodeWithNominatim_def Let_def)
next
  assume "encodeURIComponent q = Inr e"
    and "http (str ''https://nominatim.openstreetmap.org/search?format=json&q='' @ e)
           = BadJson"
  then show "returned (geocodeWithNominatim http q) = None"
    by (simp add: geocodeWithNominatim_def Let_def)
next
  assume "encodeURIComponent q = Inr e" and "encodeURIComponent q' = Inr e"
  then show "q' = q" by (rule encodeURIComponent_inj)
qed

theorem geocodeWithNominatim_contract_witness:
  "encodeURIComponent (str ''Ikorodu, Lagos'') = Inr (str ''Ikorodu%2C%20Lagos'') \<and>
   requests (geocodeWithNominatim
       (\<lambda>u. Body (JArr [JObj [(str ''lat'', JStr (str ''6.5244'')),
                               (str ''lon'', JStr (str ''3.3792''))]]))
       (str ''Ikorodu, Lagos''))
     = [str ''https://nominatim.openstreetmap.org/search?format=json&q=Ikorodu%2C%20Lagos''] \<and>
   returned (geocodeWithNominatim
       (\<lambda>u. Body (JArr [JObj [(str ''lat'', JStr (str ''6.5244'')),
                               (str ''lon'', JStr (str ''3.3792''))]]))
       (str ''Ikorodu, Lagos''))
     = Some lagos \<and>
   returned (geocodeWithNominatim (\<lambda>u. Body (JArr [JNull])) (str ''Ikorodu, Lagos'')) = None \<and>
   returned (geocodeWithNominatim (\<lambda>u. Body (JArr [])) (str ''Ikorodu, Lagos'')) = None \<and>
   returned (geocodeWithNominatim (\<lambda>u. NetworkError) (str ''Ikorodu, Lagos'')) = None \<and>
   returned (geocodeWithNominatim (\<lambda>u. BadJson) (str ''Ikorodu, Lagos'')) = None \<and>
   encodeURIComponent (str ''Lagos'') = Inr (str ''Lagos'') \<and>
   geocodeWithNominatim (\<lambda>u. Body (JArr [])) [0xD800]
     = \<lparr>requests = [], errors_logged = 1, returned = None\<rparr>"
proof -
  let ?q = "str ''Ikorodu, Lagos''"
  let ?e = "str ''Ikorodu%2C%20Lagos''"
  let ?x = "JObj [(str ''lat'', JStr (str ''6.5244'')), (str ''lon'', JStr (str ''3.3792''))]"
  have e: "encodeURIComponent ?q = Inr ?e"
    by (simp add: str_def uriUnreserved_def escaped_def utf8_def percent_def hexDigit_def)
  have u: "str ''https://nominatim.openstreetmap.org/search?format=json&q='' @ ?e
             = str ''https://nominatim.openstreetmap.org/search?format=json&q=Ikorodu%2C%20Lagos''"
    by (simp add: str_def)
  have x: "?x \<noteq> JNull" "?x \<noteq> Undefined"
          "\<not> ToString_throws (read_member ?x (str ''lat''))"
          "\<not> ToString_throws (read_member ?x (str ''lon''))"
          "parseFloat_value (read_member ?x (str ''lat'')) = fst lagos"
          "parseFloat_value (read_member ?x (str ''lon'')) = snd lagos"
    by (simp_all add: read_member_def own_member_def str_def lagos_def parseFloat_string_def
          StrWhiteSpaceChar_def StrUnsignedDecimalLiteral_def DecimalDigit_def digits_val_def
          ExponentPart_def)
  have s: "encodeURIComponent [0xD800] = Inl URIError"
    by (simp add: uriUnreserved_def str_def)
  have l: "list_all uriUnreserved (str ''Lagos'')"
    by (simp add: str_def uriUnreserved_def)
  from geocodeWithNominatim_contract [of ?q URIError "\<lambda>u. Body (JArr [?x])" ?e ?x "[]" ?q] e u x
  have a: "requests (geocodeWithNominatim (\<lambda>u. Body (JArr [?x])) ?q)
             = [str ''https://nominatim.openstreetmap.org/search?format=json&q=Ikorodu%2C%20Lagos'']"
          "returned (geocodeWithNominatim (\<lambda>u. Body (JArr [?x])) ?q) = Some lagos"
    by simp_all
  from geocodeWithNominatim_contract [of ?q URIError "\<lambda>u. Body (JArr [JNull])" ?e JNull "[]" ?q] e
  have b: "returned (geocodeWithNominatim (\<lambda>u. Body (JArr [JNull])) ?q) = None"
    by simp
  from geocodeWithNominatim_contract [of ?q URIError "\<lambda>u. Body (JArr [])" ?e JNull "[]" ?q] e
  have c: "returned (geocodeWithNominatim (\<lambda>u. Body (JArr [])) ?q) = None"
    by simp
  from geocodeWithNominatim_contract [of ?q URIError "\<lambda>u. NetworkError" ?e JNull "[]" ?q] e
  have d: "returned (geocodeWithNominatim (\<lambda>u. NetworkError) ?q) = None"
    by simp
  from geocodeWithNominatim_contract [of ?q URIError "\<lambda>u. BadJson" ?e JNull "[]" ?q] e
  have f: "returned (geocodeWithNominatim (\<lambda>u. BadJson) ?q) = None"
    by simp
  from geocodeWithNominatim_contract [of "str ''Lagos''" URIError "\<lambda>u. BadJson" "[]" JNull "[]" "str ''Lagos''"] l
  have g: "encodeURIComponent (str ''Lagos'') = Inr (str ''Lagos'')"
    by blast
  from geocodeWithNominatim_contract [of "[0xD800]" URIError "\<lambda>u. Body (JArr [])" "[]" JNull "[]" "[0xD800]"] s
  have h: "geocodeWithNominatim (\<lambda>u. Body (JArr [])) [0xD800]
             = \<lparr>requests = [], errors_logged = 1, returned = None\<rparr>"
    by blast
  from e a b c d f g h show ?thesis by blast
qed




lemma locate_hinted_refines_resolve_spec:
  "origin_set (locate_hinted http (Some d) hint fb False r)
     = Some (coordinate_of
               (resolve_spec 5000 fb (\<lambda>h. returned (geocodePlace http h)) hint (reported r)))"
  by (cases r)
     (auto simp: locate_hinted_def resolve_spec_def reported_def Let_def geocodePlace_empty
           split: option.splits)



text \<open>
  C6, as stated, fails for an unsupported platform. Neither effect tests for
  \<^verbatim>\<open>navigator.geolocation\<close> before calling \<^verbatim>\<open>getCurrentPosition\<close> on it: where the object is
  missing the effect throws a TypeError that nothing catches, and no origin is set, fallback
  or other.
\<close>

theorem unsupported_platform_throws:
  "useEffect_locate_part000 None = Inl TypeError \<and>
   useEffect_locate_hinted (\<lambda>u. NetworkError) (Some lagos) [] lagos False None = Inl TypeError"
  by (simp add: useEffect_locate_part000_def useEffect_locate_hinted_def)

text \<open>
  C6, amended. When the platform has a geolocation object and the device reports an error
  (permission denied, position unavailable or timeout), and the hint is empty or does not
  geocode, the effect completes and the origin is the fallback coordinate: the
  \<open>originFallback\<close> prop in the hint-based component (with no request at all when the hint
  is empty), Akure in the component of part_000. The specification's resolver tags it
  \<open>StaticFallback\<close>.
\<close>

theorem failed_fix_is_static_fallback:
  assumes "hint = [] \<or> returned (geocodePlace http hint) = None"
  shows "useEffect_locate_hinted http (Some d) hint fb False (Some (Failed e))
           = Inr \<lparr>origin_set = Some fb, geocoder_requests = requests (geocodePlace http hint)\<rparr> \<and>
         (hint = [] \<longrightarrow> requests (geocodePlace http hint) = []) \<and>
         useEffect_locate_part000 (Some (Failed e))
           = Inr \<lparr>origin_set = Some akure, geocoder_requests = []\<rparr> \<and>
         resolve_spec t fb (\<lambda>h. returned (geocodePlace http h)) hint (reported (Failed e))
           = StaticFallback fb"
  using assms
  by (auto simp: useEffect_locate_hinted_def useEffect_locate_part000_def locate_hinted_def
        locate_part000_def resolve_spec_def reported_def Let_def geocodePlace_empty)

theorem failed_fix_is_static_fallback_witness:
  "useEffect_locate_hinted (\<lambda>u. Body (JArr [])) (Some akure) [] lagos False
       (Some (Failed PERMISSION_DENIED))
     = Inr \<lparr>origin_set = Some lagos, geocoder_requests = []\<rparr> \<and>
   useEffect_locate_hinted (\<lambda>u. NetworkError) (Some akure) (str ''Ikorodu'') lagos False
       (Some (Failed TIMEOUT))
     = Inr \<lparr>origin_set = Some lagos,
            geocoder_requests
              = [str ''https://nominatim.openstreetmap.org/search?format=json&q=Ikorodu'']\<rparr> \<and>
   useEffect_locate_part000 (Some (Failed TIMEOUT))
     = Inr \<lparr>origin_set = Some akure, geocoder_requests = []\<rparr>"
proof -
  have g: "geocodePlace (\<lambda>u. NetworkError) (str ''Ikorodu'')
             = \<lparr>requests = [str ''https://nominatim.openstreetmap.org/search?format=json&q=Ikorodu''],
                errors_logged = 0, returned = None\<rparr>"
    by (simp add: geocodePlace_def str_def uriUnreserved_def)
  from failed_fix_is_static_fallback
         [of "[]" "\<lambda>u. Body (JArr [])" akure lagos PERMISSION_DENIED 5000]
  have a: "useEffect_locate_hinted (\<lambda>u. Body (JArr [])) (Some akure) [] lagos False
               (Some (Failed PERMISSION_DENIED))
             = Inr \<lparr>origin_set = Some lagos, geocoder_requests = []\<rparr>"
    by simp
  from failed_fix_is_static_fallback
         [of "str ''Ikorodu''" "\<lambda>u. NetworkError" akure lagos TIMEOUT 5000] g
  have b: "useEffect_locate_hinted (\<lambda>u. NetworkError) (Some akure) (str ''Ikorodu'') lagos False
               (Some (Failed TIMEOUT))
             = Inr \<lparr>origin_set = Some lagos,
                    geocoder_requests
                      = [str ''https://nominatim.openstreetmap.org/search?format=json&q=Ikorodu'']\<rparr> \<and>
           useEffect_locate_part000 (Some (Failed TIMEOUT))
             = Inr \<lparr>origin_set = Some akure, geocoder_requests = []\<rparr>"
    by simp
  from a b show ?thesis by blast
qed

section \<open>Invariants of the route sessions\<close>

lemma filter_overlay_removed:
  "\<forall>e\<in>set (filter is_overlay ls). fst e = h \<Longrightarrow> filter is_overlay (filter (\<lambda>e. fst e \<noteq> h) ls) = []"
  by (auto simp: filter_empty_conv)

lemma marker_not_overlay: "is_marker t e \<Longrightarrow> \<not> is_overlay e"
proof (cases e)
  case (Pair h l)
  assume "is_marker t e"
  with Pair show ?thesis by (cases l) simp_all
qed

lemma mount_inv: "session_inv mount"
  by (simp add: session_inv_def mount_def)

lemma useEffect_geocode_inv: "session_inv s \<Longrightarrow> session_inv (useEffect_geocode origin destination s)"
  by (auto simp: session_inv_def useEffect_geocode_def addTo_def L_map_def on_map_def setView_def overlays_def Let_def less_Suc_eq
           split: option.splits prod.splits)

lemma useEffect_part000_inv: "session_inv s \<Longrightarrow> session_inv (useEffect_part000 origin destination s)"
  by (auto simp: session_inv_def useEffect_part000_def addTo_def L_map_def on_map_def overlays_def Let_def less_Suc_eq
           split: option.splits prod.splits)

lemma cleared_fields:
  "mapRef (cleared m s) = mapRef s" "routeLayerRef (cleared m s) = routeLayerRef s"
  "length (maps (cleared m s)) = length (maps s)" "next_handle (cleared m s) = next_handle s"
  "in_flight (cleared m s) = in_flight s" "mounted (cleared m s) = mounted s"
  "console (cleared m s) = console s"
  by (simp_all add: cleared_def removeLayer_def on_map_def split: option.splits)

lemma cleared_removals:
  "m < length (maps s) \<Longrightarrow> removals (maps (cleared m s) ! m) = removals (maps s ! m)"
  by (simp add: cleared_def removeLayer_def on_map_def split: option.splits)

lemma cleared_layers_subset:
  "m < length (maps s) \<Longrightarrow> set (layers (maps (cleared m s) ! m)) \<subseteq> set (layers (maps s ! m))"
  by (auto simp: cleared_def removeLayer_def on_map_def split: option.splits)

lemma cleared_overlays:
  assumes "session_inv s" and "mapRef s = Some m"
  shows "overlays (maps (cleared m s) ! 0) = []"
proof (cases "routeLayerRef s")
  case None
  with assms show ?thesis
    by (auto simp: cleared_def session_inv_def overlays_def filter_empty_conv)
next
  case (Some h)
  with assms have "\<forall>e\<in>set (filter is_overlay (layers (maps s ! 0))). fst e = h"
    by (auto simp: session_inv_def overlays_def)
  from filter_overlay_removed [OF this] Some assms show ?thesis
    by (simp add: cleared_def session_inv_def overlays_def removeLayer_def on_map_def conj_commute)
qed

lemma cleared_markers:
  assumes "session_inv s" and "mapRef s = Some m"
  shows "markers t (maps (cleared m s) ! 0) = markers t (maps s ! 0)"
proof (cases "routeLayerRef s")
  case None
  then show ?thesis by (simp add: cleared_def)
next
  case (Some h)
  with assms have "\<forall>e\<in>set (layers (maps s ! 0)). fst e = h \<longrightarrow> is_overlay e"
    by (auto simp: session_inv_def)
  then have "filter (\<lambda>e. fst e \<noteq> h \<and> is_marker t e) (layers (maps s ! 0))
               = filter (is_marker t) (layers (maps s ! 0))"
    by (intro filter_cong refl) (auto dest: marker_not_overlay)
  then have "filter (is_marker t) (filter (\<lambda>e. fst e \<noteq> h) (layers (maps s ! 0)))
               = filter (is_marker t) (layers (maps s ! 0))"
    by simp
  with Some assms show ?thesis
    by (simp add: cleared_def session_inv_def markers_def removeLayer_def on_map_def)
qed

lemma cleared_inv:
  assumes "session_inv s" "mapRef s = Some m"
  shows "session_inv (cleared m s)"
proof -
  from assms have m: "m = 0" "length (maps s) = 1" by (simp_all add: session_inv_def)
  then have "set (layers (maps (cleared m s) ! 0)) \<subseteq> set (layers (maps s ! 0))"
    using cleared_layers_subset [of m s] by simp
  with assms cleared_overlays [OF assms] m show ?thesis
    by (auto simp: session_inv_def cleared_fields cleared_removals)
qed

lemma drawn_inv:
  assumes "session_inv s1" "mapRef s1 = Some 0" "overlays (maps s1 ! 0) = []"
  shows "session_inv ((addTo 0 (GeoJSON data) s1)\<lparr>routeLayerRef := Some (next_handle s1)\<rparr>)"
  using assms by (auto simp: session_inv_def addTo_def on_map_def overlays_def less_Suc_eq)

lemma console_error_inv: "session_inv s \<Longrightarrow> session_inv (console_error msg s)"
  by (simp add: session_inv_def console_error_def split: option.splits)

lemma fitBounds_inv: "session_inv s \<Longrightarrow> session_inv (fitBounds m h s)"
  by (auto simp: session_inv_def fitBounds_def on_map_def overlays_def split: option.splits)

lemma getRoute_geocode_inv:
  assumes "session_inv s"
  shows "session_inv (getRoute_geocode lib reply s)"
proof (cases reply)
  case FetchRejected
  then show ?thesis using assms by (simp add: getRoute_geocode_def console_error_inv)
next
  case JsonRejected
  then show ?thesis using assms by (simp add: getRoute_geocode_def console_error_inv)
next
  case (Response ok data)
  show ?thesis
  proof (cases "mapRef s")
    case None
    then show ?thesis using assms Response by (simp add: getRoute_geocode_def console_error_inv)
  next
    case (Some m)
    with assms have m0: "m = 0" by (simp add: session_inv_def)
    have c: "session_inv (cleared m s)" using assms Some by (rule cleared_inv)
    have d: "session_inv ((addTo 0 (GeoJSON data) (cleared m s))\<lparr>routeLayerRef := Some (next_handle (cleared m s))\<rparr>)"
      using c Some m0 cleared_overlays [OF assms Some]
      by (intro drawn_inv) (simp_all add: cleared_fields)
    from c d Some Response m0 show ?thesis
      by (simp add: getRoute_geocode_def Let_def console_error_inv cleared_def [symmetric])
  qed
qed

lemma getRoute_part000_inv:
  assumes "session_inv s"
  shows "session_inv (getRoute_part000 lib reply s)"
proof (cases reply)
  case FetchRejected
  then show ?thesis using assms by (simp add: getRoute_part000_def console_error_inv)
next
  case JsonRejected
  then show ?thesis using assms by (simp add: getRoute_part000_def console_error_inv)
next
  case (Response ok data)
  show ?thesis
  proof (cases "mapRef s")
    case None
    then show ?thesis using assms Response by (simp add: getRoute_part000_def console_error_inv)
  next
    case (Some m)
    with assms have m0: "m = 0" by (simp add: session_inv_def)
    have c: "session_inv (cleared m s)" using assms Some by (rule cleared_inv)
    have d: "session_inv ((addTo 0 (GeoJSON data) (cleared m s))\<lparr>routeLayerRef := Some (next_handle (cleared m s))\<rparr>)"
      using c Some m0 cleared_overlays [OF assms Some]
      by (intro drawn_inv) (simp_all add: cleared_fields)
    from c d Some Response m0 assms show ?thesis
      by (simp add: getRoute_part000_def Let_def console_error_inv fitBounds_inv cleared_def [symmetric])
  qed
qed

lemma in_flight_dropped_inv:
  "session_inv s \<Longrightarrow> session_inv (s\<lparr>in_flight := take_out i (in_flight s)\<rparr>)"
  by (simp add: session_inv_def take_out_def split: option.splits)

lemma step_geocode_inv: "session_inv s \<Longrightarrow> session_inv (step_geocode lib s e)"
proof (cases e)
  case (Update origin destination)
  assume "session_inv s"
  then show ?thesis using Update useEffect_geocode_inv [of s] by simp
next
  case (Resolve i reply)
  assume a: "session_inv s"
  from in_flight_dropped_inv [OF a] show ?thesis using Resolve a getRoute_geocode_inv by simp
next
  case Unmount
  assume "session_inv s"
  then show ?thesis using Unmount by (simp add: session_inv_def split: option.splits)
qed

lemma step_part000_inv: "session_inv s \<Longrightarrow> session_inv (step_part000 lib s e)"
proof (cases e)
  case (Update origin destination)
  assume "session_inv s"
  then show ?thesis using Update useEffect_part000_inv [of s] by simp
next
  case (Resolve i reply)
  assume a: "session_inv s"
  from in_flight_dropped_inv [OF a] show ?thesis using Resolve a getRoute_part000_inv by simp
next
  case Unmount
  assume "session_inv s"
  then show ?thesis using Unmount by (simp add: session_inv_def split: option.splits)
qed

lemma foldl_geocode_inv: "session_inv s \<Longrightarrow> session_inv (foldl (step_geocode lib) s es)"
  by (induction es arbitrary: s) (simp_all add: step_geocode_inv)

lemma foldl_part000_inv: "session_inv s \<Longrightarrow> session_inv (foldl (step_part000 lib) s es)"
  by (induction es arbitrary: s) (simp_all add: step_part000_inv)

lemma run_geocode_inv: "session_inv (run_geocode lib es)"
  unfolding run_geocode_def by (rule foldl_geocode_inv [OF mount_inv])

lemma run_part000_inv: "session_inv (run_part000 lib es)"
  unfolding run_part000_def by (rule foldl_part000_inv [OF mount_inv])

lemma count_list_take_out:
  "i < length xs \<Longrightarrow> count_list xs x = count_list (take_out i xs) x + (if xs ! i = x then 1 else 0)"
proof -
  assume "i < length xs"
  then have "xs = take i xs @ xs ! i # drop (Suc i) xs" by (rule id_take_nth_drop)
  then have "count_list xs x = count_list (take i xs @ xs ! i # drop (Suc i) xs) x" by simp
  then show ?thesis by (simp add: take_out_def)
qed

lemma set_take_out: "set (take_out i xs) \<subseteq> set xs"
  unfolding take_out_def using set_take_subset [of i xs] set_drop_subset [of "Suc i" xs] by auto

lemma mount_Map_inv: "remount_inv mount_Map"
  by (simp add: remount_inv_def mount_Map_def)

lemma cleanup_Map_inv: "remount_inv s \<Longrightarrow> remount_inv (cleanup_Map s) \<and> cleanup (cleanup_Map s) = None"
  by (auto simp: remount_inv_def cleanup_Map_def remove_map_def on_map_def overlays_def nth_list_update
           split: option.splits)

lemma count_list_fresh: "\<forall>m \<in> set xs. m < (n::nat) \<Longrightarrow> count_list xs n = 0"
  by (induction xs) auto

lemma useEffect_Map_inv:
  assumes "remount_inv s" "cleanup s = None" "mounted s"
  shows "remount_inv (useEffect_Map origin destination s)"
proof -
  from assms have "count_list (awaiting s) (length (maps s)) = 0"
    by (intro count_list_fresh) (simp add: remount_inv_def)
  with assms show ?thesis
    by (auto simp: remount_inv_def useEffect_Map_def addTo_def L_map_def on_map_def overlays_def
          nth_list_update nth_append Let_def less_Suc_eq)
qed

lemma getRoute_Map_inv:
  assumes "remount_inv s" "i < length (awaiting s)"
  shows "remount_inv (getRoute_Map lib reply (awaiting s ! i) (s\<lparr>awaiting := take_out i (awaiting s)\<rparr>))"
proof -
  let ?m = "awaiting s ! i"
  let ?s = "s\<lparr>awaiting := take_out i (awaiting s)\<rparr>"
  have cnt: "\<And>x. count_list (awaiting s) x = count_list (take_out i (awaiting s)) x + (if ?m = x then 1 else 0)"
    using assms(2) by (rule count_list_take_out)
  have sub: "set (take_out i (awaiting s)) \<subseteq> set (awaiting s)" by (rule set_take_out)
  have le: "\<And>x. count_list (take_out i (awaiting s)) x \<le> count_list (awaiting s) x"
    using cnt by simp
  have dropped: "remount_inv ?s"
    unfolding remount_inv_def
  proof (intro conjI allI impI ballI)
    fix m assume "m < length (maps ?s)"
    with assms(1) have "length (overlays (maps s ! m)) + count_list (awaiting s) m \<le> 1"
      by (simp add: remount_inv_def)
    with le [of m] show "length (overlays (maps ?s ! m)) + count_list (awaiting ?s) m \<le> 1"
      by simp
  next
    fix m assume "m \<in> set (awaiting ?s)"
    with sub assms(1) show "m < length (maps ?s)" by (auto simp: remount_inv_def)
  next
    fix m assume "m < length (maps ?s)"
    with assms(1) show "removals (maps ?s ! m) = (if cleanup ?s = Some m then 0 else 1)"
      by (simp add: remount_inv_def)
  next
    assume "\<not> mounted ?s"
    with assms(1) show "cleanup ?s = None" by (simp add: remount_inv_def)
  qed
  have logged: "remount_inv (console_error ''Route error:'' ?s)"
    using dropped by (simp add: remount_inv_def console_error_def)
  have added: "remount_inv (addTo ?m (GeoJSON Undefined) ?s)"
    unfolding remount_inv_def
  proof (intro conjI allI impI ballI)
    fix m assume "m < length (maps (addTo ?m (GeoJSON Undefined) ?s))"
    then have m: "m < length (maps s)" by (simp add: addTo_def on_map_def split: if_splits)
    from assms(1) m have "length (overlays (maps s ! m)) + count_list (awaiting s) m \<le> 1"
      by (simp add: remount_inv_def)
    with cnt [of m] m
    show "length (overlays (maps (addTo ?m (GeoJSON Undefined) ?s) ! m))
            + count_list (awaiting (addTo ?m (GeoJSON Undefined) ?s)) m \<le> 1"
      by (auto simp: addTo_def on_map_def overlays_def nth_list_update)
  next
    fix m assume "m \<in> set (awaiting (addTo ?m (GeoJSON Undefined) ?s))"
    then have "m \<in> set (awaiting s)" using sub by (auto simp: addTo_def on_map_def split: if_splits)
    with assms(1) show "m < length (maps (addTo ?m (GeoJSON Undefined) ?s))"
      by (simp add: remount_inv_def addTo_def on_map_def)
  next
    fix m assume "m < length (maps (addTo ?m (GeoJSON Undefined) ?s))"
    then have m: "m < length (maps s)" by (simp add: addTo_def on_map_def split: if_splits)
    with assms(1) show "removals (maps (addTo ?m (GeoJSON Undefined) ?s) ! m)
            = (if cleanup (addTo ?m (GeoJSON Undefined) ?s) = Some m then 0 else 1)"
      by (auto simp: remount_inv_def addTo_def on_map_def nth_list_update)
  next
    assume "\<not> mounted (addTo ?m (GeoJSON Undefined) ?s)"
    with assms(1) show "cleanup (addTo ?m (GeoJSON Undefined) ?s) = None"
      by (simp add: remount_inv_def addTo_def on_map_def split: if_splits)
  qed
  from dropped logged added show ?thesis
    by (simp add: getRoute_Map_def split: route_reply.splits)
qed

lemma step_Map_inv: "remount_inv s \<Longrightarrow> remount_inv (step_Map lib s e)"
proof (cases e)
  case (Render origin destination)
  assume a: "remount_inv s"
  show ?thesis
  proof (cases "mounted s")
    case True
    then have "mounted (cleanup_Map s)"
      by (simp add: cleanup_Map_def remove_map_def on_map_def split: option.splits)
    with cleanup_Map_inv [OF a] Render True show ?thesis
      by (simp add: useEffect_Map_inv)
  next
    case False
    with a Render show ?thesis by simp
  qed
next
  case (Settle i reply)
  assume "remount_inv s"
  then show ?thesis using Settle getRoute_Map_inv by simp
next
  case Remove
  assume a: "remount_inv s"
  from cleanup_Map_inv [OF a] show ?thesis using Remove
    by (simp add: remount_inv_def)
qed

lemma foldl_Map_inv: "remount_inv s \<Longrightarrow> remount_inv (foldl (step_Map lib) s es)"
  by (induction es arbitrary: s) (simp_all add: step_Map_inv)

lemma run_Map_inv: "remount_inv (run_Map lib es)"
  unfolding run_Map_def by (rule foldl_Map_inv [OF mount_Map_inv])

lemmas session_eval =
  run_geocode_def run_part000_def run_Map_def mount_def mount_Map_def
  useEffect_geocode_def useEffect_part000_def useEffect_Map_def
  getRoute_geocode_def getRoute_part000_def getRoute_Map_def cleanup_Map_def
  addTo_def L_map_def on_map_def removeLayer_def setView_def fitBounds_def remove_map_def
  console_error_def take_out_def overlays_def markers_def drawn_def shown_def lenient_def

lemma singleton_set: "length xs = 1 \<Longrightarrow> set xs = {xs ! 0}"
  by (cases xs) auto


lemma session_inv_removals:
  assumes "session_inv s" and "mp \<in> set (maps s)"
  shows "removals mp = 0"
proof (cases "mapRef s")
  case None
  with assms show ?thesis by (simp add: session_inv_def)
next
  case (Some m)
  with assms(1) have "length (maps s) = 1" "removals (maps s ! 0) = 0"
    by (simp_all add: session_inv_def)
  with assms(2) singleton_set [of "maps s"] show ?thesis by simp
qed


lemma remount_inv_removals:
  assumes "remount_inv s" and "mp \<in> set (maps s)"
  shows "removals mp \<le> 1 \<and> (\<not> mounted s \<longrightarrow> removals mp = 1)"
proof -
  from assms(2) obtain m where "m < length (maps s)" "maps s ! m = mp"
    by (auto simp: in_set_conv_nth)
  with assms(1) show ?thesis by (auto simp: remount_inv_def)
qed

lemma drawn_single:
  "length (maps w) = 1 \<Longrightarrow> drawn w = [map snd (overlays (maps w ! 0))]"
  by (cases "maps w") (simp_all add: drawn_def)

lemma drawn_after_draw:
  assumes "length (maps s1) = 1" "overlays (maps s1 ! 0) = []"
  shows "drawn ((addTo 0 (GeoJSON data) s1)\<lparr>routeLayerRef := r\<rparr>) = [[GeoJSON data]]"
    and "drawn (fitBounds 0 h ((addTo 0 (GeoJSON data) s1)\<lparr>routeLayerRef := r\<rparr>)) = [[GeoJSON data]]"
    and "drawn (console_error msg ((addTo 0 (GeoJSON data) s1)\<lparr>routeLayerRef := r\<rparr>)) = [[GeoJSON data]]"
  using assms
  by (simp_all add: drawn_single addTo_def on_map_def fitBounds_def console_error_def overlays_def)

lemma getRoute_part000_draws:
  assumes "session_inv s" "mapRef s \<noteq> None" "geojson_ok lib data"
  shows "drawn (getRoute_part000 lib (Response True data) s) = [[GeoJSON data]]"
proof -
  from assms obtain m where m: "mapRef s = Some m" by auto
  with assms have m0: "m = 0" and l: "length (maps s) = 1" by (simp_all add: session_inv_def)
  have c: "length (maps (cleared 0 s)) = 1" "overlays (maps (cleared 0 s) ! 0) = []"
    using l cleared_overlays [OF assms(1) m] m0 by (simp_all add: cleared_fields)
  from drawn_after_draw [OF c] m m0 assms(3) show ?thesis
    by (simp add: getRoute_part000_def Let_def cleared_def [symmetric])
qed

lemma getRoute_geocode_draws:
  assumes "session_inv s" "mapRef s \<noteq> None" "geojson_ok lib data"
  shows "drawn (getRoute_geocode lib (Response ok data) s) = [[GeoJSON data]]"
proof -
  from assms obtain m where m: "mapRef s = Some m" by auto
  with assms have m0: "m = 0" and l: "length (maps s) = 1" by (simp_all add: session_inv_def)
  have c: "length (maps (cleared 0 s)) = 1" "overlays (maps (cleared 0 s) ! 0) = []"
    using l cleared_overlays [OF assms(1) m] m0 by (simp_all add: cleared_fields)
  from drawn_after_draw [OF c] m m0 assms(3) show ?thesis
    by (simp add: getRoute_geocode_def Let_def cleared_def [symmetric])
qed

lemma in_flight_has_map: "session_inv s \<Longrightarrow> i < length (in_flight s) \<Longrightarrow> mapRef s \<noteq> None"
  by (cases "mapRef s") (auto simp: session_inv_def)

lemma getRoute_geocode_mapRef: "mapRef (getRoute_geocode lib reply s) = mapRef s"
  by (simp add: getRoute_geocode_def console_error_def addTo_def on_map_def removeLayer_def Let_def
        split: route_reply.splits option.splits)

lemma getRoute_part000_mapRef: "mapRef (getRoute_part000 lib reply s) = mapRef s"
  by (simp add: getRoute_part000_def console_error_def addTo_def on_map_def removeLayer_def
        fitBounds_def Let_def split: route_reply.splits option.splits)

lemma useEffect_geocode_mapRef: "mapRef (useEffect_geocode origin destination s) \<noteq> None"
  by (simp add: useEffect_geocode_def addTo_def L_map_def on_map_def setView_def Let_def
        split: option.splits prod.splits)

lemma useEffect_part000_mapRef:
  "mapRef s \<noteq> None \<or> (origin \<noteq> None \<and> destination \<noteq> None)
     \<Longrightarrow> mapRef (useEffect_part000 origin destination s) \<noteq> None"
  by (auto simp: useEffect_part000_def addTo_def L_map_def on_map_def Let_def
        split: option.splits prod.splits)

lemma step_geocode_mapRef: "mapRef s \<noteq> None \<Longrightarrow> mapRef (step_geocode lib s e) \<noteq> None"
  by (cases e) (simp_all add: useEffect_geocode_mapRef getRoute_geocode_mapRef del: not_None_eq)

lemma step_part000_mapRef: "mapRef s \<noteq> None \<Longrightarrow> mapRef (step_part000 lib s e) \<noteq> None"
  by (cases e) (simp_all add: useEffect_part000_mapRef getRoute_part000_mapRef del: not_None_eq)

lemma foldl_geocode_mapRef: "mapRef s \<noteq> None \<Longrightarrow> mapRef (foldl (step_geocode lib) s es) \<noteq> None"
  by (induction es arbitrary: s) (simp_all add: step_geocode_mapRef del: not_None_eq)

lemma foldl_part000_mapRef: "mapRef s \<noteq> None \<Longrightarrow> mapRef (foldl (step_part000 lib) s es) \<noteq> None"
  by (induction es arbitrary: s) (simp_all add: step_part000_mapRef del: not_None_eq)

lemma session_inv_maps_le: "session_inv s \<Longrightarrow> length (maps s) \<le> 1"
  by (cases "mapRef s") (simp_all add: session_inv_def)

lemma session_inv_maps_eq: "session_inv s \<Longrightarrow> mapRef s \<noteq> None \<Longrightarrow> length (maps s) = 1"
  by (cases "mapRef s") (simp_all add: session_inv_def)

lemma cleanup_Map_fields:
  "length (maps (cleanup_Map s)) = length (maps s)" "mounted (cleanup_Map s) = mounted s"
  by (simp_all add: cleanup_Map_def remove_map_def on_map_def split: option.splits)

lemma useEffect_Map_fields:
  "length (maps (useEffect_Map origin destination s)) = Suc (length (maps s))"
  "mounted (useEffect_Map origin destination s) = mounted s"
  by (simp_all add: useEffect_Map_def addTo_def L_map_def on_map_def Let_def)

lemma foldl_renders:
  "mounted s \<Longrightarrow>
     mounted (foldl (step_Map lib) s (renders ps)) \<and>
     length (maps (foldl (step_Map lib) s (renders ps))) = length (maps s) + length ps"
  by (induction ps arbitrary: s) (simp_all add: renders_def cleanup_Map_fields useEffect_Map_fields)

lemma cleanup_Map_twice: "cleanup_Map (cleanup_Map s) = cleanup_Map s"
  by (simp add: cleanup_Map_def remove_map_def on_map_def split: option.splits)

lemma shown_single:
  "length (maps w) = 1 \<Longrightarrow> shown t w = map snd (markers t (maps w ! 0))"
  by (cases "maps w") (simp_all add: shown_def)

lemma useEffect_geocode_shown:
  assumes "session_inv s"
  shows "shown ''Your Location'' (useEffect_geocode origin destination s)
           = shown ''Your Location'' s
             @ (case origin of None \<Rightarrow> [] | Some c \<Rightarrow> [Marker c ''Your Location''])"
    and "shown ''Hospital'' (useEffect_geocode origin destination s)
           = shown ''Hospital'' s
             @ (case destination of None \<Rightarrow> [] | Some d \<Rightarrow> [Marker d ''Hospital''])"
proof -
  show "shown ''Your Location'' (useEffect_geocode origin destination s)
           = shown ''Your Location'' s
             @ (case origin of None \<Rightarrow> [] | Some c \<Rightarrow> [Marker c ''Your Location''])"
  proof (cases "mapRef s")
    case None
    with assms have "maps s = []" by (simp add: session_inv_def)
    with None show ?thesis
      by (simp add: shown_def markers_def useEffect_geocode_def addTo_def L_map_def on_map_def
            setView_def Let_def split: option.splits)
  next
    case (Some m)
    with assms have "m = 0" "length (maps s) = 1" by (simp_all add: session_inv_def)
    then obtain mp where "maps s = [mp]" by (cases "maps s") auto
    with Some \<open>m = 0\<close> show ?thesis
      by (simp add: shown_def markers_def useEffect_geocode_def addTo_def on_map_def
            setView_def Let_def split: option.splits)
  qed
  show "shown ''Hospital'' (useEffect_geocode origin destination s)
           = shown ''Hospital'' s
             @ (case destination of None \<Rightarrow> [] | Some d \<Rightarrow> [Marker d ''Hospital''])"
  proof (cases "mapRef s")
    case None
    with assms have "maps s = []" by (simp add: session_inv_def)
    with None show ?thesis
      by (simp add: shown_def markers_def useEffect_geocode_def addTo_def L_map_def on_map_def
            setView_def Let_def split: option.splits)
  next
    case (Some m)
    with assms have "m = 0" "length (maps s) = 1" by (simp_all add: session_inv_def)
    then obtain mp where "maps s = [mp]" by (cases "maps s") auto
    with Some \<open>m = 0\<close> show ?thesis
      by (simp add: shown_def markers_def useEffect_geocode_def addTo_def on_map_def
            setView_def Let_def split: option.splits)
  qed
qed

lemma useEffect_part000_shown:
  assumes "session_inv s"
  shows "shown ''You are here'' (useEffect_part000 (Some c) (Some d) s)
           = shown ''You are here'' s @ [Marker c ''You are here'']"
    and "shown ''Hospital'' (useEffect_part000 (Some c) (Some d) s)
           = shown ''Hospital'' s @ [Marker d ''Hospital'']"
proof -
  show "shown ''You are here'' (useEffect_part000 (Some c) (Some d) s)
           = shown ''You are here'' s @ [Marker c ''You are here'']"
  proof (cases "mapRef s")
    case None
    with assms have "maps s = []" by (simp add: session_inv_def)
    with None show ?thesis
      by (simp add: shown_def markers_def useEffect_part000_def addTo_def L_map_def on_map_def Let_def)
  next
    case (Some m)
    with assms have "m = 0" "length (maps s) = 1" by (simp_all add: session_inv_def)
    then obtain mp where "maps s = [mp]" by (cases "maps s") auto
    with Some \<open>m = 0\<close> show ?thesis
      by (simp add: shown_def markers_def useEffect_part000_def addTo_def on_map_def Let_def)
  qed
  show "shown ''Hospital'' (useEffect_part000 (Some c) (Some d) s)
           = shown ''Hospital'' s @ [Marker d ''Hospital'']"
  proof (cases "mapRef s")
    case None
    with assms have "maps s = []" by (simp add: session_inv_def)
    with None show ?thesis
      by (simp add: shown_def markers_def useEffect_part000_def addTo_def L_map_def on_map_def Let_def)
  next
    case (Some m)
    with assms have "m = 0" "length (maps s) = 1" by (simp_all add: session_inv_def)
    then obtain mp where "maps s = [mp]" by (cases "maps s") auto
    with Some \<open>m = 0\<close> show ?thesis
      by (simp add: shown_def markers_def useEffect_part000_def addTo_def on_map_def Let_def)
  qed
qed

lemma shown_after_draw:
  assumes "length (maps s1) = 1"
  shows "shown t ((addTo 0 (GeoJSON data) s1)\<lparr>routeLayerRef := r\<rparr>) = shown t s1"
    and "shown t (fitBounds 0 h ((addTo 0 (GeoJSON data) s1)\<lparr>routeLayerRef := r\<rparr>)) = shown t s1"
    and "shown t (console_error msg ((addTo 0 (GeoJSON data) s1)\<lparr>routeLayerRef := r\<rparr>)) = shown t s1"
    and "shown t (console_error msg s1) = shown t s1"
  using assms
  by (simp_all add: shown_single addTo_def on_map_def fitBounds_def console_error_def markers_def)

lemma cleared_shown:
  assumes "session_inv s" "mapRef s = Some m"
  shows "shown t (cleared m s) = shown t s"
proof -
  from assms have "length (maps s) = 1" by (simp add: session_inv_def)
  with cleared_markers [OF assms, of t] show ?thesis
    by (simp add: shown_single cleared_fields)
qed

lemma getRoute_geocode_shown:
  assumes "session_inv s"
  shows "shown t (getRoute_geocode lib reply s) = shown t s"
proof (cases reply)
  case FetchRejected
  then show ?thesis by (simp add: getRoute_geocode_def console_error_def shown_def)
next
  case JsonRejected
  then show ?thesis by (simp add: getRoute_geocode_def console_error_def shown_def)
next
  case (Response ok data)
  show ?thesis
  proof (cases "mapRef s")
    case None
    with Response show ?thesis by (simp add: getRoute_geocode_def console_error_def shown_def)
  next
    case (Some m)
    with assms have m0: "m = 0" and l: "length (maps (cleared 0 s)) = 1"
      by (simp_all add: session_inv_def cleared_fields)
    from shown_after_draw [OF l] cleared_shown [OF assms Some] Some Response m0 show ?thesis
      by (simp add: getRoute_geocode_def Let_def cleared_def [symmetric])
  qed
qed

lemma getRoute_part000_shown:
  assumes "session_inv s"
  shows "shown t (getRoute_part000 lib reply s) = shown t s"
proof (cases reply)
  case FetchRejected
  then show ?thesis by (simp add: getRoute_part000_def console_error_def shown_def)
next
  case JsonRejected
  then show ?thesis by (simp add: getRoute_part000_def console_error_def shown_def)
next
  case (Response ok data)
  show ?thesis
  proof (cases "mapRef s")
    case None
    with Response show ?thesis by (simp add: getRoute_part000_def console_error_def shown_def)
  next
    case (Some m)
    with assms have m0: "m = 0" and l: "length (maps (cleared 0 s)) = 1"
      by (simp_all add: session_inv_def cleared_fields)
    from shown_after_draw [OF l] cleared_shown [OF assms Some] Some Response m0 show ?thesis
      by (simp add: getRoute_part000_def Let_def console_error_def shown_def cleared_def [symmetric])
  qed
qed

lemma step_resolve_shown:
  assumes "session_inv s"
  shows "shown t (step_geocode lib s (Resolve i reply)) = shown t s"
    and "shown t (step_part000 lib s (Resolve i reply)) = shown t s"
  using getRoute_geocode_shown [OF in_flight_dropped_inv [OF assms], of t lib reply i]
    getRoute_part000_shown [OF in_flight_dropped_inv [OF assms], of t lib reply i]
  by (simp_all add: shown_def)

lemma useEffect_mounted:
  "mounted (useEffect_geocode origin destination s) = mounted s"
  "mounted (useEffect_part000 origin destination s) = mounted s"
  by (simp_all add: useEffect_geocode_def useEffect_part000_def addTo_def L_map_def on_map_def
        setView_def Let_def split: option.splits prod.splits)

lemma foldl_updates_geocode:
  "session_inv s \<Longrightarrow> mounted s \<Longrightarrow>
     shown ''Your Location'' (foldl (step_geocode lib) s (updates ps))
       = shown ''Your Location'' s @ map (\<lambda>p. Marker (fst p) ''Your Location'') ps \<and>
     shown ''Hospital'' (foldl (step_geocode lib) s (updates ps))
       = shown ''Hospital'' s @ map (\<lambda>p. Marker (snd p) ''Hospital'') ps"
proof (induction ps arbitrary: s)
  case Nil
  then show ?case by (simp add: updates_def)
next
  case (Cons p ps)
  let ?s = "useEffect_geocode (Some (fst p)) (Some (snd p)) s"
  have "session_inv ?s" "mounted ?s"
    using Cons.prems by (simp_all add: useEffect_geocode_inv useEffect_mounted)
  from Cons.IH [OF this] useEffect_geocode_shown [OF Cons.prems(1), of "Some (fst p)" "Some (snd p)"]
    Cons.prems(2)
  show ?case by (simp add: updates_def)
qed

lemma foldl_updates_part000:
  "session_inv s \<Longrightarrow> mounted s \<Longrightarrow>
     shown ''You are here'' (foldl (step_part000 lib) s (updates ps))
       = shown ''You are here'' s @ map (\<lambda>p. Marker (fst p) ''You are here'') ps \<and>
     shown ''Hospital'' (foldl (step_part000 lib) s (updates ps))
       = shown ''Hospital'' s @ map (\<lambda>p. Marker (snd p) ''Hospital'') ps"
proof (induction ps arbitrary: s)
  case Nil
  then show ?case by (simp add: updates_def)
next
  case (Cons p ps)
  let ?s = "useEffect_part000 (Some (fst p)) (Some (snd p)) s"
  have "session_inv ?s" "mounted ?s"
    using Cons.prems by (simp_all add: useEffect_part000_inv useEffect_mounted)
  from Cons.IH [OF this] useEffect_part000_shown [OF Cons.prems(1), of "fst p" "snd p"]
    Cons.prems(2)
  show ?case by (simp add: updates_def)
qed

lemma shown_mount: "shown t mount = []"
  by (simp add: shown_def mount_def)

lemma run_updates_shown:
  "shown ''Your Location'' (run_geocode lib (updates ps)) = map (\<lambda>p. Marker (fst p) ''Your Location'') ps"
  "shown ''Hospital'' (run_geocode lib (updates ps)) = map (\<lambda>p. Marker (snd p) ''Hospital'') ps"
  "shown ''You are here'' (run_part000 lib (updates ps)) = map (\<lambda>p. Marker (fst p) ''You are here'') ps"
  "shown ''Hospital'' (run_part000 lib (updates ps)) = map (\<lambda>p. Marker (snd p) ''Hospital'') ps"
  using foldl_updates_geocode [OF mount_inv, of lib ps] foldl_updates_part000 [OF mount_inv, of lib ps]
  by (simp_all add: run_geocode_def run_part000_def shown_mount) (simp_all add: mount_def)

lemma viewport_on_map:
  "(\<And>mp. viewport (f mp) = viewport mp) \<Longrightarrow>
     map viewport (maps (on_map m f w)) = map viewport (maps w)"
  by (simp add: on_map_def map_update list_update_same_conv)

lemma viewport_kept:
  "map viewport (maps (addTo m l w)) = map viewport (maps w)"
  "map viewport (maps (removeLayer m h w)) = map viewport (maps w)"
  "map viewport (maps (console_error msg w)) = map viewport (maps w)"
  by (simp_all add: addTo_def removeLayer_def console_error_def viewport_on_map)

lemma cleared_viewport: "map viewport (maps (cleared m s)) = map viewport (maps s)"
  by (simp add: cleared_def viewport_kept split: option.splits)

lemma getRoute_geocode_viewport:
  "map viewport (maps (getRoute_geocode lib reply s)) = map viewport (maps s)"
  by (simp add: getRoute_geocode_def Let_def viewport_kept cleared_viewport cleared_def [symmetric]
        split: route_reply.splits option.splits)

lemma getRoute_part000_viewport:
  "\<not> (ok \<and> geojson_ok lib data \<and> bounds_ok lib data) \<Longrightarrow>
     map viewport (maps (getRoute_part000 lib (Response ok data) s)) = map viewport (maps s)"
  by (auto simp: getRoute_part000_def Let_def viewport_kept cleared_viewport cleared_def [symmetric]
        split: option.splits)

lemma getRoute_geocode_mounted: "mounted (getRoute_geocode lib reply s) = mounted s"
  by (simp add: getRoute_geocode_def console_error_def addTo_def on_map_def removeLayer_def Let_def
        split: route_reply.splits option.splits)

lemma getRoute_part000_mounted: "mounted (getRoute_part000 lib reply s) = mounted s"
  by (simp add: getRoute_part000_def console_error_def addTo_def on_map_def removeLayer_def
        fitBounds_def Let_def split: route_reply.splits option.splits)

lemma getRoute_geocode_refused:
  assumes "session_inv s" "mapRef s \<noteq> None" "\<not> geojson_ok lib data"
  shows "drawn (getRoute_geocode lib (Response ok data) s) = [[]] \<and>
         console (getRoute_geocode lib (Response ok data) s) = console s @ [''Route error:'']"
proof -
  from assms obtain m where m: "mapRef s = Some m" by auto
  with assms have m0: "m = 0" and l: "length (maps s) = 1" by (simp_all add: session_inv_def)
  have c: "length (maps (cleared 0 s)) = 1" "overlays (maps (cleared 0 s) ! 0) = []"
    using l cleared_overlays [OF assms(1) m] m0 by (simp_all add: cleared_fields)
  then have "drawn (console_error ''Route error:'' (cleared 0 s)) = [[]]"
    by (simp add: drawn_single console_error_def)
  moreover have "console (console_error ''Route error:'' (cleared 0 s)) = console s @ [''Route error:'']"
    by (simp add: console_error_def cleared_fields)
  ultimately show ?thesis using m m0 assms(3)
    by (simp add: getRoute_geocode_def Let_def cleared_def [symmetric])
qed

lemma getRoute_part000_unfitted:
  assumes "mapRef s \<noteq> None" "geojson_ok lib data" "\<not> bounds_ok lib data"
  shows "console (getRoute_part000 lib (Response True data) s) = console s @ [''Route error:'']"
proof -
  from assms obtain m where m: "mapRef s = Some m" by auto
  have "console (addTo m (GeoJSON data) (cleared m s)) = console s"
    by (simp add: addTo_def on_map_def cleared_fields)
  with m assms(2,3) show ?thesis
    by (simp add: getRoute_part000_def Let_def cleared_def [symmetric] console_error_def)
qed

lemma getRoute_part000_refused:
  assumes "session_inv s" "mapRef s \<noteq> None" "\<not> geojson_ok lib data"
  shows "drawn (getRoute_part000 lib (Response True data) s) = [[]] \<and>
         console (getRoute_part000 lib (Response True data) s) = console s @ [''Route error:'']"
proof -
  from assms obtain m where m: "mapRef s = Some m" by auto
  with assms have m0: "m = 0" and l: "length (maps s) = 1" by (simp_all add: session_inv_def)
  have c: "length (maps (cleared 0 s)) = 1" "overlays (maps (cleared 0 s) ! 0) = []"
    using l cleared_overlays [OF assms(1) m] m0 by (simp_all add: cleared_fields)
  then have "drawn (console_error ''Route error:'' (cleared 0 s)) = [[]]"
    by (simp add: drawn_single console_error_def)
  moreover have "console (console_error ''Route error:'' (cleared 0 s)) = console s @ [''Route error:'']"
    by (simp add: console_error_def cleared_fields)
  ultimately show ?thesis using m m0 assms(3)
    by (simp add: getRoute_part000_def Let_def cleared_def [symmetric])
qed

section \<open>Properties of the route sessions\<close>



text \<open>
  C1, as stated, fails. In utils/geocode.js the origin changes from Ikeja to Akure while the
  destination stays: two requests are in flight; the newer one settles and is drawn; the
  older one settles afterwards and is drawn over it, so the overlay shows the route from
  the superseded origin. The same happens in part_000 when the destination changes.
\<close>

theorem stale_route_rendered:
  "in_flight (run_geocode lenient
       [Update (Some ikeja) (Some lagos), Update (Some akure) (Some lagos)])
     = [(ikeja, lagos), (akure, lagos)] \<and>
   drawn (run_geocode lenient
       [Update (Some ikeja) (Some lagos), Update (Some akure) (Some lagos),
        Resolve 1 (Response True (route_body akure lagos))])
     = [[GeoJSON (route_body akure lagos)]] \<and>
   drawn (run_geocode lenient
       [Update (Some ikeja) (Some lagos), Update (Some akure) (Some lagos),
        Resolve 1 (Response True (route_body akure lagos)),
        Resolve 0 (Response True (route_body ikeja lagos))])
     = [[GeoJSON (route_body ikeja lagos)]] \<and>
   drawn (run_part000 lenient
       [Update None (Some lagos), Update (Some ikeja) (Some lagos),
        Update (Some ikeja) (Some akure),
        Resolve 1 (Response True (route_body ikeja akure)),
        Resolve 0 (Response True (route_body ikeja lagos))])
     = [[GeoJSON (route_body ikeja lagos)]]"
  by (simp add: session_eval)

text \<open>
  C1, amended. The components stamp no epoch on a request and compare none when it settles.
  In every reachable state, any request still in flight, however old, that settles with a
  body \<^verbatim>\<open>L.geoJSON\<close> accepts (and, in part_000, with \<^verbatim>\<open>res.ok\<close>) is drawn at once and becomes
  the only overlay: the overlay shown is that of the request that settled last.
\<close>

theorem every_settled_route_is_rendered:
  assumes "geojson_ok lib data"
  shows "(i < length (in_flight (run_part000 lib es)) \<longrightarrow>
            drawn (step_part000 lib (run_part000 lib es) (Resolve i (Response True data)))
              = [[GeoJSON data]]) \<and>
         (j < length (in_flight (run_geocode lib es')) \<longrightarrow>
            drawn (step_geocode lib (run_geocode lib es') (Resolve j (Response ok data)))
              = [[GeoJSON data]])"
proof (intro conjI impI)
  assume i: "i < length (in_flight (run_part000 lib es))"
  let ?s = "run_part000 lib es"
  have "session_inv (?s\<lparr>in_flight := take_out i (in_flight ?s)\<rparr>)"
    by (rule in_flight_dropped_inv [OF run_part000_inv])
  moreover have "mapRef (?s\<lparr>in_flight := take_out i (in_flight ?s)\<rparr>) \<noteq> None"
    using in_flight_has_map [OF run_part000_inv i] by simp
  ultimately show "drawn (step_part000 lib ?s (Resolve i (Response True data))) = [[GeoJSON data]]"
    using i assms by (simp add: getRoute_part000_draws)
next
  assume j: "j < length (in_flight (run_geocode lib es'))"
  let ?s = "run_geocode lib es'"
  have "session_inv (?s\<lparr>in_flight := take_out j (in_flight ?s)\<rparr>)"
    by (rule in_flight_dropped_inv [OF run_geocode_inv])
  moreover have "mapRef (?s\<lparr>in_flight := take_out j (in_flight ?s)\<rparr>) \<noteq> None"
    using in_flight_has_map [OF run_geocode_inv j] by simp
  ultimately show "drawn (step_geocode lib ?s (Resolve j (Response ok data))) = [[GeoJSON data]]"
    using j assms by (simp add: getRoute_geocode_draws)
qed

theorem every_settled_route_is_rendered_witness:
  "geojson_ok lenient (route_body ikeja lagos) \<and>
   0 < length (in_flight (run_part000 lenient
                 [Update None (Some lagos), Update (Some ikeja) (Some lagos),
                  Update (Some ikeja) (Some akure),
                  Resolve 1 (Response True (route_body ikeja akure))])) \<and>
   drawn (step_part000 lenient
            (run_part000 lenient
               [Update None (Some lagos), Update (Some ikeja) (Some lagos),
                Update (Some ikeja) (Some akure),
                Resolve 1 (Response True (route_body ikeja akure))])
            (Resolve 0 (Response True (route_body ikeja lagos))))
     = [[GeoJSON (route_body ikeja lagos)]] \<and>
   0 < length (in_flight (run_geocode lenient [Update (Some ikeja) (Some lagos)])) \<and>
   drawn (step_geocode lenient
            (run_geocode lenient [Update (Some ikeja) (Some lagos)])
            (Resolve 0 (Response False (route_body ikeja lagos))))
     = [[GeoJSON (route_body ikeja lagos)]]"
proof -
  have g: "geojson_ok lenient (route_body ikeja lagos)" by (simp add: lenient_def)
  have i: "0 < length (in_flight (run_part000 lenient
                 [Update None (Some lagos), Update (Some ikeja) (Some lagos),
                  Update (Some ikeja) (Some akure),
                  Resolve 1 (Response True (route_body ikeja akure))]))"
    by (simp add: session_eval)
  have j: "0 < length (in_flight (run_geocode lenient [Update (Some ikeja) (Some lagos)]))"
    by (simp add: session_eval)
  from every_settled_route_is_rendered [OF g, of 0
         "[Update None (Some lagos), Update (Some ikeja) (Some lagos),
           Update (Some ikeja) (Some akure),
           Resolve 1 (Response True (route_body ikeja akure))]"
         0 "[Update (Some ikeja) (Some lagos)]" False] g i j
  show ?thesis by blast
qed

text \<open>
  C2, as stated, fails on Map.jsx: the effect body calls \<^verbatim>\<open>L.map\<close> on every run, so a change
  of origin creates a second surface, the first having been removed by the cleanup.
\<close>

theorem surface_recreated_by_Map:
  "length (maps (run_Map lenient [Render ikeja lagos])) = 1 \<and>
   length (maps (run_Map lenient [Render ikeja lagos, Render akure lagos])) = 2 \<and>
   map removals (maps (run_Map lenient [Render ikeja lagos, Render akure lagos])) = [1, 0]"
  by (simp add: session_eval)

text \<open>
  C2, amended. The two components that keep the map in a ref never have more than one
  surface. In utils/geocode.js exactly one map has ever been created once an effect has run
  while the component is mounted, whatever follows; in part_000 the same holds once an
  effect has run with origin and destination both present. Map.jsx creates one surface per
  effect run.
\<close>

theorem surface_created_once_with_ref:
  "length (maps (run_geocode lib es)) \<le> 1 \<and>
   length (maps (run_part000 lib es')) \<le> 1 \<and>
   (mounted (run_geocode lib es) \<longrightarrow>
      length (maps (run_geocode lib (es @ Update origin destination # fs))) = 1) \<and>
   (mounted (run_part000 lib es') \<longrightarrow>
      length (maps (run_part000 lib (es' @ Update (Some c) (Some d) # fs'))) = 1) \<and>
   length (maps (run_Map lib (renders ps))) = length ps"
proof (intro conjI impI)
  show "length (maps (run_geocode lib es)) \<le> 1"
    by (rule session_inv_maps_le [OF run_geocode_inv])
next
  show "length (maps (run_part000 lib es')) \<le> 1"
    by (rule session_inv_maps_le [OF run_part000_inv])
next
  assume "mounted (run_geocode lib es)"
  then have "mapRef (step_geocode lib (run_geocode lib es) (Update origin destination)) \<noteq> None"
    by (simp add: useEffect_geocode_mapRef)
  then have "mapRef (run_geocode lib (es @ Update origin destination # fs)) \<noteq> None"
    by (simp add: run_geocode_def foldl_geocode_mapRef del: not_None_eq)
  then show "length (maps (run_geocode lib (es @ Update origin destination # fs))) = 1"
    by (rule session_inv_maps_eq [OF run_geocode_inv])
next
  assume "mounted (run_part000 lib es')"
  then have "mapRef (step_part000 lib (run_part000 lib es') (Update (Some c) (Some d))) \<noteq> None"
    by (simp add: useEffect_part000_mapRef)
  then have "mapRef (run_part000 lib (es' @ Update (Some c) (Some d) # fs')) \<noteq> None"
    by (simp add: run_part000_def foldl_part000_mapRef del: not_None_eq)
  then show "length (maps (run_part000 lib (es' @ Update (Some c) (Some d) # fs'))) = 1"
    by (rule session_inv_maps_eq [OF run_part000_inv])
next
  have "mounted mount_Map" by (simp add: mount_Map_def)
  from foldl_renders [OF this, of lib ps]
  show "length (maps (run_Map lib (renders ps))) = length ps"
    by (simp add: run_Map_def mount_Map_def)
qed

theorem surface_created_once_with_ref_witness:
  "mounted (run_geocode lenient []) \<and>
   length (maps (run_geocode lenient
       [Update None (Some lagos), Update (Some ikeja) (Some lagos),
        Update (Some akure) (Some lagos)])) = 1 \<and>
   mounted (run_part000 lenient [Update None (Some lagos)]) \<and>
   length (maps (run_part000 lenient [Update None (Some lagos)])) = 0 \<and>
   length (maps (run_part000 lenient
       [Update None (Some lagos), Update (Some ikeja) (Some lagos),
        Update (Some ikeja) (Some akure)])) = 1"
proof -
  have a: "mounted (run_geocode lenient [])"
    by (simp add: session_eval)
  have b: "mounted (run_part000 lenient [Update None (Some lagos)])"
          "length (maps (run_part000 lenient [Update None (Some lagos)])) = 0"
    by (simp_all add: session_eval)
  from a b surface_created_once_with_ref
    [of lenient "[]" "[Update None (Some lagos)]" None "Some lagos"
        "[Update (Some ikeja) (Some lagos), Update (Some akure) (Some lagos)]"
        ikeja lagos "[Update (Some ikeja) (Some akure)]" "[]"]
  show ?thesis by simp
qed

text \<open>
  C4, as stated, fails. In part_000 nothing is torn down at unmount, and a request that
  settles afterwards still draws its overlay and moves the viewport. In Map.jsx the first
  map is removed while the component is still mounted, as soon as the props change, and a
  request that settles after the removal adds its layer to the removed map.
\<close>

theorem no_teardown_and_late_mutation:
  "map removals (maps (run_part000 lenient
       [Update None (Some lagos), Update (Some ikeja) (Some lagos), Unmount])) = [0] \<and>
   drawn (run_part000 lenient
       [Update None (Some lagos), Update (Some ikeja) (Some lagos), Unmount]) = [[]] \<and>
   map viewport (maps (run_part000 lenient
       [Update None (Some lagos), Update (Some ikeja) (Some lagos), Unmount]))
     = [SetView ikeja 13] \<and>
   drawn (run_part000 lenient
       [Update None (Some lagos), Update (Some ikeja) (Some lagos), Unmount,
        Resolve 0 (Response True (route_body ikeja lagos))])
     = [[GeoJSON (route_body ikeja lagos)]] \<and>
   map viewport (maps (run_part000 lenient
       [Update None (Some lagos), Update (Some ikeja) (Some lagos), Unmount,
        Resolve 0 (Response True (route_body ikeja lagos))]))
     = [FitBounds 3] \<and>
   map removals (maps (run_Map lenient [Render ikeja lagos, Render akure lagos])) = [1, 0] \<and>
   mounted (run_Map lenient [Render ikeja lagos, Render akure lagos]) \<and>
   map layers (maps (run_Map lenient [Render ikeja lagos, Remove])) = [[]] \<and>
   map layers (maps (run_Map lenient
       [Render ikeja lagos, Remove, Settle 0 (Response True (route_body ikeja lagos))]))
     = [[(3, GeoJSON Undefined)]]"
  by (simp add: session_eval)

text \<open>
  C4, amended. In Map.jsx every surface is removed at most once, and once the component is
  unmounted every surface created has been removed exactly once; running the cleanup again
  changes nothing. The components of utils/geocode.js and part_000 register no cleanup:
  no surface of theirs is ever removed.
\<close>

theorem teardown_once_per_surface:
  "(\<forall>mp \<in> set (maps (run_Map lib ms)).
       removals mp \<le> 1 \<and> (\<not> mounted (run_Map lib ms) \<longrightarrow> removals mp = 1)) \<and>
   cleanup_Map (cleanup_Map (run_Map lib ms)) = cleanup_Map (run_Map lib ms) \<and>
   (\<forall>mp \<in> set (maps (run_geocode lib es)). removals mp = 0) \<and>
   (\<forall>mp \<in> set (maps (run_part000 lib es')). removals mp = 0)"
  using remount_inv_removals [OF run_Map_inv] session_inv_removals [OF run_geocode_inv]
    session_inv_removals [OF run_part000_inv] cleanup_Map_twice
  by blast

theorem teardown_once_per_surface_witness:
  "map removals (maps (run_Map lenient [Render ikeja lagos, Render akure lagos, Remove, Remove]))
     = [1, 1] \<and>
   \<not> mounted (run_Map lenient [Render ikeja lagos, Render akure lagos, Remove, Remove]) \<and>
   removals (hd (maps (run_Map lenient [Render ikeja lagos, Render akure lagos, Remove, Remove])))
     = 1 \<and>
   maps (run_part000 lenient [Update None (Some lagos), Update (Some ikeja) (Some lagos), Unmount])
     \<noteq> [] \<and>
   removals (hd (maps (run_part000 lenient
       [Update None (Some lagos), Update (Some ikeja) (Some lagos), Unmount]))) = 0"
proof -
  let ?a = "run_Map lenient [Render ikeja lagos, Render akure lagos, Remove, Remove]"
  let ?b = "run_part000 lenient [Update None (Some lagos), Update (Some ikeja) (Some lagos), Unmount]"
  have a: "map removals (maps ?a) = [1, 1]" "\<not> mounted ?a" "maps ?a \<noteq> []"
    by (simp_all add: session_eval)
  have b: "maps ?b \<noteq> []"
    by (simp add: session_eval)
  from a b have "hd (maps ?a) \<in> set (maps ?a)" "hd (maps ?b) \<in> set (maps ?b)" by simp_all
  with a(2) teardown_once_per_surface
    [of lenient "[Render ikeja lagos, Render akure lagos, Remove, Remove]" "[]"
        "[Update None (Some lagos), Update (Some ikeja) (Some lagos), Unmount]"]
  have "removals (hd (maps ?a)) = 1" "removals (hd (maps ?b)) = 0" by blast+
  with a b show ?thesis by blast
qed

text \<open>
  C7, as stated, fails. After a failed request the viewport is the one set before, never a
  fit to the two markers; and when an earlier request had succeeded, its overlay stays on
  the map after a later request, for another destination, fails.
\<close>

theorem route_failure_no_fit:
  "map viewport (maps (run_part000 lenient
       [Update None (Some lagos), Update (Some ikeja) (Some lagos), Resolve 0 FetchRejected]))
     = [SetView ikeja 13] \<and>
   drawn (run_part000 lenient
       [Update None (Some lagos), Update (Some ikeja) (Some lagos),
        Resolve 0 (Response True (route_body ikeja lagos)),
        Update (Some ikeja) (Some akure), Resolve 0 FetchRejected])
     = [[GeoJSON (route_body ikeja lagos)]] \<and>
   map viewport (maps (run_part000 lenient
       [Update None (Some lagos), Update (Some ikeja) (Some lagos),
        Resolve 0 (Response True (route_body ikeja lagos)),
        Update (Some ikeja) (Some akure), Resolve 0 FetchRejected]))
     = [FitBounds 3] \<and>
   map viewport (maps (run_geocode lenient
       [Update (Some ikeja) (Some lagos), Resolve 0 JsonRejected]))
     = [SetView ikeja 13]"
  by (simp add: session_eval)

text \<open>
  C7, amended. Whatever a directions request settles with, the component stays mounted and
  every marker stays on the map; \<^verbatim>\<open>getRoute\<close> of utils/geocode.js never touches the viewport,
  and that of part_000 touches it only to fit a route it has just drawn. A request that
  rejects or whose body is not JSON, and in part_000 also a response that is not \<^verbatim>\<open>ok\<close>, is
  caught and logged with one \<^verbatim>\<open>console.error\<close> line and changes no map, so an overlay
  already drawn stays. A parsed body that \<^verbatim>\<open>L.geoJSON\<close> refuses (in utils/geocode.js
  whatever the status, in part_000 after an \<^verbatim>\<open>ok\<close> response) is caught and logged after the
  old overlay has been taken off, so the map is left with no overlay. In part_000 a route
  whose bounds cannot be fitted is caught and logged as well, the viewport staying as it
  was.
\<close>

theorem route_failure_leaves_surface:
  "(thrown reply \<longrightarrow>
      maps (step_geocode lib s (Resolve i reply)) = maps s \<and>
      mounted (step_geocode lib s (Resolve i reply)) = mounted s \<and>
      (i < length (in_flight s) \<longrightarrow>
         console (step_geocode lib s (Resolve i reply)) = console s @ [''Route error:''])) \<and>
   (thrown reply \<or> (\<exists>data. reply = Response False data) \<longrightarrow>
      maps (step_part000 lib s (Resolve i reply)) = maps s \<and>
      mounted (step_part000 lib s (Resolve i reply)) = mounted s \<and>
      (i < length (in_flight s) \<longrightarrow>
         length (console (step_part000 lib s (Resolve i reply))) = Suc (length (console s)))) \<and>
   shown t (step_geocode lib (run_geocode lib es) (Resolve i reply)) = shown t (run_geocode lib es) \<and>
   shown t (step_part000 lib (run_part000 lib es') (Resolve i reply)) = shown t (run_part000 lib es') \<and>
   mounted (step_geocode lib s (Resolve i reply)) = mounted s \<and>
   mounted (step_part000 lib s (Resolve i reply)) = mounted s \<and>
   map viewport (maps (step_geocode lib s (Resolve i reply))) = map viewport (maps s) \<and>
   (\<not> (ok \<and> geojson_ok lib data \<and> bounds_ok lib data) \<longrightarrow>
      map viewport (maps (step_part000 lib s (Resolve i (Response ok data)))) = map viewport (maps s)) \<and>
   (\<not> geojson_ok lib data \<and> j < length (in_flight (run_geocode lib es)) \<longrightarrow>
      drawn (step_geocode lib (run_geocode lib es) (Resolve j (Response ok data))) = [[]] \<and>
      console (step_geocode lib (run_geocode lib es) (Resolve j (Response ok data)))
        = console (run_geocode lib es) @ [''Route error:'']) \<and>
   (\<not> geojson_ok lib data \<and> k < length (in_flight (run_part000 lib es')) \<longrightarrow>
      drawn (step_part000 lib (run_part000 lib es') (Resolve k (Response True data))) = [[]] \<and>
      console (step_part000 lib (run_part000 lib es') (Resolve k (Response True data)))
        = console (run_part000 lib es') @ [''Route error:'']) \<and>
   (geojson_ok lib data \<and> \<not> bounds_ok lib data \<and> k < length (in_flight (run_part000 lib es')) \<longrightarrow>
      console (step_part000 lib (run_part000 lib es') (Resolve k (Response True data)))
        = console (run_part000 lib es') @ [''Route error:''])"
proof -
  have a: "thrown reply \<longrightarrow>
      maps (step_geocode lib s (Resolve i reply)) = maps s \<and>
      mounted (step_geocode lib s (Resolve i reply)) = mounted s \<and>
      (i < length (in_flight s) \<longrightarrow>
         console (step_geocode lib s (Resolve i reply)) = console s @ [''Route error:''])"
    by (cases reply) (auto simp: getRoute_geocode_def console_error_def)
  have b: "thrown reply \<or> (\<exists>data. reply = Response False data) \<longrightarrow>
      maps (step_part000 lib s (Resolve i reply)) = maps s \<and>
      mounted (step_part000 lib s (Resolve i reply)) = mounted s \<and>
      (i < length (in_flight s) \<longrightarrow>
         length (console (step_part000 lib s (Resolve i reply))) = Suc (length (console s)))"
    by (cases reply) (auto simp: getRoute_part000_def console_error_def)
  have c: "shown t (step_geocode lib (run_geocode lib es) (Resolve i reply)) = shown t (run_geocode lib es)"
          "shown t (step_part000 lib (run_part000 lib es') (Resolve i reply)) = shown t (run_part000 lib es')"
    by (rule step_resolve_shown [OF run_geocode_inv], rule step_resolve_shown [OF run_part000_inv])
  have d: "mounted (step_geocode lib s (Resolve i reply)) = mounted s"
          "mounted (step_part000 lib s (Resolve i reply)) = mounted s"
    by (simp_all add: getRoute_geocode_mounted getRoute_part000_mounted)
  have e: "map viewport (maps (step_geocode lib s (Resolve i reply))) = map viewport (maps s)"
    by (simp add: getRoute_geocode_viewport)
  have f: "\<not> (ok \<and> geojson_ok lib data \<and> bounds_ok lib data) \<longrightarrow>
      map viewport (maps (step_part000 lib s (Resolve i (Response ok data)))) = map viewport (maps s)"
    using getRoute_part000_viewport [of ok lib data "s\<lparr>in_flight := take_out i (in_flight s)\<rparr>"]
    by simp
  have g: "\<not> geojson_ok lib data \<and> j < length (in_flight (run_geocode lib es)) \<longrightarrow>
      drawn (step_geocode lib (run_geocode lib es) (Resolve j (Response ok data))) = [[]] \<and>
      console (step_geocode lib (run_geocode lib es) (Resolve j (Response ok data)))
        = console (run_geocode lib es) @ [''Route error:'']"
  proof (intro impI, elim conjE)
    let ?s = "run_geocode lib es"
    assume r: "\<not> geojson_ok lib data" and j: "j < length (in_flight ?s)"
    have "session_inv (?s\<lparr>in_flight := take_out j (in_flight ?s)\<rparr>)"
      by (rule in_flight_dropped_inv [OF run_geocode_inv])
    moreover have "mapRef (?s\<lparr>in_flight := take_out j (in_flight ?s)\<rparr>) \<noteq> None"
      using in_flight_has_map [OF run_geocode_inv j] by simp
    ultimately show "drawn (step_geocode lib ?s (Resolve j (Response ok data))) = [[]] \<and>
      console (step_geocode lib ?s (Resolve j (Response ok data))) = console ?s @ [''Route error:'']"
      using getRoute_geocode_refused [OF _ _ r, of "?s\<lparr>in_flight := take_out j (in_flight ?s)\<rparr>" ok] j
      by simp
  qed
  have h: "\<not> geojson_ok lib data \<and> k < length (in_flight (run_part000 lib es')) \<longrightarrow>
      drawn (step_part000 lib (run_part000 lib es') (Resolve k (Response True data))) = [[]] \<and>
      console (step_part000 lib (run_part000 lib es') (Resolve k (Response True data)))
        = console (run_part000 lib es') @ [''Route error:'']"
  proof (intro impI, elim conjE)
    let ?s = "run_part000 lib es'"
    assume r: "\<not> geojson_ok lib data" and k: "k < length (in_flight ?s)"
    have "session_inv (?s\<lparr>in_flight := take_out k (in_flight ?s)\<rparr>)"
      by (rule in_flight_dropped_inv [OF run_part000_inv])
    moreover have "mapRef (?s\<lparr>in_flight := take_out k (in_flight ?s)\<rparr>) \<noteq> None"
      using in_flight_has_map [OF run_part000_inv k] by simp
    ultimately show "drawn (step_part000 lib ?s (Resolve k (Response True data))) = [[]] \<and>
      console (step_part000 lib ?s (Resolve k (Response True data))) = console ?s @ [''Route error:'']"
      using getRoute_part000_refused [OF _ _ r, of "?s\<lparr>in_flight := take_out k (in_flight ?s)\<rparr>"] k
      by simp
  qed
  have u: "geojson_ok lib data \<and> \<not> bounds_ok lib data \<and> k < length (in_flight (run_part000 lib es')) \<longrightarrow>
      console (step_part000 lib (run_part000 lib es') (Resolve k (Response True data)))
        = console (run_part000 lib es') @ [''Route error:'']"
  proof (intro impI, elim conjE)
    let ?s = "run_part000 lib es'"
    assume r: "geojson_ok lib data" "\<not> bounds_ok lib data" and k: "k < length (in_flight ?s)"
    have "mapRef (?s\<lparr>in_flight := take_out k (in_flight ?s)\<rparr>) \<noteq> None"
      using in_flight_has_map [OF run_part000_inv k] by simp
    from getRoute_part000_unfitted [OF this r] k
    show "console (step_part000 lib ?s (Resolve k (Response True data))) = console ?s @ [''Route error:'']"
      by simp
  qed
  from a b c d e f g h u show ?thesis by blast
qed

theorem route_failure_leaves_surface_witness:
  "drawn (run_geocode strict
       [Update (Some ikeja) (Some lagos), Resolve 0 (Response True (route_body ikeja lagos)),
        Update (Some akure) (Some lagos)])
     = [[GeoJSON (route_body ikeja lagos)]] \<and>
   drawn (step_geocode strict
            (run_geocode strict
               [Update (Some ikeja) (Some lagos), Resolve 0 (Response True (route_body ikeja lagos)),
                Update (Some akure) (Some lagos)])
            (Resolve 0 (Response False (JObj [(str ''error'', JStr (str ''quota''))]))))
     = [[]] \<and>
   console (step_geocode strict
            (run_geocode strict
               [Update (Some ikeja) (Some lagos), Resolve 0 (Response True (route_body ikeja lagos)),
                Update (Some akure) (Some lagos)])
            (Resolve 0 (Response False (JObj [(str ''error'', JStr (str ''quota''))]))))
     = [''Route error:''] \<and>
   drawn (step_part000 strict
            (run_part000 strict [Update None (Some lagos), Update (Some ikeja) (Some lagos)])
            (Resolve 0 (Response True (JObj [(str ''error'', JStr (str ''quota''))]))))
     = [[]] \<and>
   maps (step_part000 strict
           (run_part000 strict [Update None (Some lagos), Update (Some ikeja) (Some lagos)])
           (Resolve 0 (Response False (JObj [(str ''error'', JStr (str ''quota''))]))))
     = maps (run_part000 strict [Update None (Some lagos), Update (Some ikeja) (Some lagos)]) \<and>
   length (console (step_part000 strict
           (run_part000 strict [Update None (Some lagos), Update (Some ikeja) (Some lagos)])
           (Resolve 0 (Response False (JObj [(str ''error'', JStr (str ''quota''))]))))) = 1 \<and>
   maps (step_geocode strict (run_geocode strict [Update (Some ikeja) (Some lagos)])
           (Resolve 0 FetchRejected))
     = maps (run_geocode strict [Update (Some ikeja) (Some lagos)]) \<and>
   console (step_geocode strict (run_geocode strict [Update (Some ikeja) (Some lagos)])
           (Resolve 0 FetchRejected))
     = [''Route error:''] \<and>
   console (step_part000 strict
            (run_part000 strict [Update None (Some lagos), Update (Some ikeja) (Some lagos)])
            (Resolve 0 (Response True (JObj [(str ''type'', JStr (str ''FeatureCollection'')),
                                             (str ''features'', JArr [])]))))
     = [''Route error:''] \<and>
   map viewport (maps (step_part000 strict
            (run_part000 strict [Update None (Some lagos), Update (Some ikeja) (Some lagos)])
            (Resolve 0 (Response True (JObj [(str ''type'', JStr (str ''FeatureCollection'')),
                                             (str ''features'', JArr [])])))))
     = [SetView ikeja 13]"
proof -
  let ?err = "JObj [(str ''error'', JStr (str ''quota''))]"
  let ?g2 = "[Update (Some ikeja) (Some lagos), Resolve 0 (Response True (route_body ikeja lagos)),
              Update (Some akure) (Some lagos)]"
  let ?p = "run_part000 strict [Update None (Some lagos), Update (Some ikeja) (Some lagos)]"
  let ?g = "run_geocode strict [Update (Some ikeja) (Some lagos)]"
  have bad: "\<not> geojson_ok strict ?err" "\<not> (False \<and> geojson_ok strict ?err \<and> bounds_ok strict ?err)"
    by (simp_all add: strict_def own_member_def str_def)
  have good: "geojson_ok strict (route_body ikeja lagos)"
    by (simp add: strict_def route_body_def own_member_def str_def)
  have g2: "drawn (run_geocode strict ?g2) = [[GeoJSON (route_body ikeja lagos)]]"
           "0 < length (in_flight (run_geocode strict ?g2))"
           "console (run_geocode strict ?g2) = []"
    using good by (simp_all add: session_eval)
  have i: "0 < length (in_flight ?g)" "console ?g = []"
    by (simp_all add: session_eval)
  have k: "0 < length (in_flight ?p)" "console ?p = []"
    by (simp_all add: session_eval)
  from route_failure_leaves_surface
         [of "Response False ?err" strict ?p 0 "''Hospital''" ?g2
             "[Update None (Some lagos), Update (Some ikeja) (Some lagos)]" False ?err 0 0]
       bad g2 k
  have a: "drawn (step_geocode strict (run_geocode strict ?g2) (Resolve 0 (Response False ?err))) = [[]]"
          "console (step_geocode strict (run_geocode strict ?g2) (Resolve 0 (Response False ?err)))
             = [''Route error:'']"
          "drawn (step_part000 strict ?p (Resolve 0 (Response True ?err))) = [[]]"
          "maps (step_part000 strict ?p (Resolve 0 (Response False ?err))) = maps ?p"
          "length (console (step_part000 strict ?p (Resolve 0 (Response False ?err)))) = 1"
    by simp_all
  from route_failure_leaves_surface
         [of FetchRejected strict ?g 0 "''Hospital''" "[]" "[]" False ?err 0 0] i
  have b: "maps (step_geocode strict ?g (Resolve 0 FetchRejected)) = maps ?g"
          "console (step_geocode strict ?g (Resolve 0 FetchRejected)) = [''Route error:'']"
    by simp_all
  let ?none = "JObj [(str ''type'', JStr (str ''FeatureCollection'')), (str ''features'', JArr [])]"
  have none: "geojson_ok strict ?none" "\<not> bounds_ok strict ?none"
             "\<not> (True \<and> geojson_ok strict ?none \<and> bounds_ok strict ?none)"
    by (simp_all add: strict_def own_member_def str_def)
  have v: "map viewport (maps ?p) = [SetView ikeja 13]"
    by (simp add: session_eval)
  from route_failure_leaves_surface
         [of FetchRejected strict ?p 0 "''Hospital''" "[]"
             "[Update None (Some lagos), Update (Some ikeja) (Some lagos)]" True ?none 0 0]
       none k v
  have n: "console (step_part000 strict ?p (Resolve 0 (Response True ?none))) = [''Route error:'']"
          "map viewport (maps (step_part000 strict ?p (Resolve 0 (Response True ?none))))
             = [SetView ikeja 13]"
    by simp_all
  from g2(1) a b n show ?thesis by blast
qed

text \<open>
  C9, as stated, fails. In utils/geocode.js two updates with both inputs present leave two
  origin markers and two destination markers on the one map; in part_000 a change of
  destination leaves both destination markers and a second marker at the unchanged origin.
\<close>

theorem markers_accumulate:
  "shown ''Your Location'' (run_geocode lenient
       [Update (Some ikeja) (Some lagos), Update (Some akure) (Some lagos)])
     = [Marker ikeja ''Your Location'', Marker akure ''Your Location''] \<and>
   shown ''Hospital'' (run_geocode lenient
       [Update (Some ikeja) (Some lagos), Update (Some akure) (Some lagos)])
     = [Marker lagos ''Hospital'', Marker lagos ''Hospital''] \<and>
   shown ''You are here'' (run_part000 lenient
       [Update None (Some lagos), Update (Some ikeja) (Some lagos),
        Update (Some ikeja) (Some akure)])
     = [Marker ikeja ''You are here'', Marker ikeja ''You are here''] \<and>
   shown ''Hospital'' (run_part000 lenient
       [Update None (Some lagos), Update (Some ikeja) (Some lagos),
        Update (Some ikeja) (Some akure)])
     = [Marker lagos ''Hospital'', Marker akure ''Hospital'']"
  by (simp add: session_eval)

text \<open>
  C9, amended. No marker is ever taken off the map. In utils/geocode.js an effect run adds
  one origin marker when the origin is present and one destination marker when the
  destination is present, after those already there; in part_000 it adds both when both
  are present and does nothing when either is absent. Settling a route request changes no
  marker. So a run of n effect executions with both inputs present leaves n origin markers
  and n destination markers, in the order of the updates.
\<close>

theorem markers_only_added:
  "shown t (step_geocode lib (run_geocode lib es) (Resolve i reply)) = shown t (run_geocode lib es) \<and>
   shown ''Your Location'' (useEffect_geocode origin destination (run_geocode lib es))
     = shown ''Your Location'' (run_geocode lib es)
       @ (case origin of None \<Rightarrow> [] | Some c \<Rightarrow> [Marker c ''Your Location'']) \<and>
   shown ''Hospital'' (useEffect_geocode origin destination (run_geocode lib es))
     = shown ''Hospital'' (run_geocode lib es)
       @ (case destination of None \<Rightarrow> [] | Some d \<Rightarrow> [Marker d ''Hospital'']) \<and>
   shown t (step_part000 lib (run_part000 lib es') (Resolve i reply)) = shown t (run_part000 lib es') \<and>
   shown ''You are here'' (useEffect_part000 (Some c) (Some d) (run_part000 lib es'))
     = shown ''You are here'' (run_part000 lib es') @ [Marker c ''You are here''] \<and>
   shown ''Hospital'' (useEffect_part000 (Some c) (Some d) (run_part000 lib es'))
     = shown ''Hospital'' (run_part000 lib es') @ [Marker d ''Hospital''] \<and>
   useEffect_part000 None destination (run_part000 lib es') = run_part000 lib es' \<and>
   useEffect_part000 origin None (run_part000 lib es') = run_part000 lib es' \<and>
   shown ''Your Location'' (run_geocode lib (updates ps))
     = map (\<lambda>p. Marker (fst p) ''Your Location'') ps \<and>
   shown ''Hospital'' (run_geocode lib (updates ps)) = map (\<lambda>p. Marker (snd p) ''Hospital'') ps \<and>
   shown ''You are here'' (run_part000 lib (updates ps))
     = map (\<lambda>p. Marker (fst p) ''You are here'') ps \<and>
   shown ''Hospital'' (run_part000 lib (updates ps)) = map (\<lambda>p. Marker (snd p) ''Hospital'') ps"
proof -
  have "useEffect_part000 None destination (run_part000 lib es') = run_part000 lib es'"
       "useEffect_part000 origin None (run_part000 lib es') = run_part000 lib es'"
    by (simp_all add: useEffect_part000_def split: option.splits)
  with step_resolve_shown [OF run_geocode_inv] step_resolve_shown [OF run_part000_inv]
    useEffect_geocode_shown [OF run_geocode_inv] useEffect_part000_shown [OF run_part000_inv]
    run_updates_shown [of lib ps]
  show ?thesis by simp
qed

end
